theory Spec2Isabelle
  imports Main "HOL-Library.Sublist"
begin

unbundle bit_operations_syntax

section \<open>Strings as the source handles them\<close>

text \<open>
  JavaScript strings are modelled as \<^typ>\<open>string\<close>. Every character the source tests
  for is ASCII, so a character outside ASCII behaves alike in both representations: it
  is in no character class of the result grammar and it is no separator.
\<close>

text \<open>\<^verbatim>\<open>String.prototype.split\<close> with a one-character separator: the result is never
  empty, and \<^verbatim>\<open>"".split(c)\<close> is \<^verbatim>\<open>[""]\<close>.\<close>

fun split :: "char \<Rightarrow> string \<Rightarrow> string list" where
  "split c [] = [[]]"
| "split c (x # xs) =
     (if x = c then [] # split c xs
      else (case split c xs of
              [] \<Rightarrow> [[x]]
            | w # ws \<Rightarrow> (x # w) # ws))"

text \<open>\<^verbatim>\<open>Array.prototype.at\<close>: a negative index counts from the end, and an index out of
  range gives \<^verbatim>\<open>undefined\<close>.\<close>

definition at :: "'a list \<Rightarrow> int \<Rightarrow> 'a option" where
  "at xs i =
     (let n = int (length xs);
          k = (if 0 \<le> i then i else n + i)
      in if k < 0 \<or> n \<le> k then None else Some (xs ! nat k))"

text \<open>\<^verbatim>\<open>String.prototype.indexOf\<close>: the first index where the needle starts, or -1.\<close>

fun indexOf :: "string \<Rightarrow> string \<Rightarrow> int" where
  "indexOf [] t = (if t = [] then 0 else - 1)"
| "indexOf (c # cs) t =
     (if prefix t (c # cs) then 0
      else (let i = indexOf cs t in if i < 0 then - 1 else i + 1))"

text \<open>\<^verbatim>\<open>s.substring(0, e)\<close>: a negative end counts as 0, an end beyond the length as
  the length.\<close>

definition substring0 :: "string \<Rightarrow> int \<Rightarrow> string" where
  "substring0 s e = (if e < 0 then [] else take (nat e) s)"

text \<open>\<^verbatim>\<open>s.replace(pat, '')\<close> with a string pattern: the first occurrence of the
  pattern is removed, later ones stay.\<close>

fun removeFirst :: "string \<Rightarrow> string \<Rightarrow> string" where
  "removeFirst pat [] = []"
| "removeFirst pat (c # cs) =
     (if prefix pat (c # cs) then drop (length pat) (c # cs)
      else c # removeFirst pat cs)"

section \<open>ResultParser\<close>

record ParseResult =
  cardKey :: string
  field :: string
  "value" :: string

text \<open>The character classes \<^verbatim>\<open>[a-zA-Z0-9_]\<close> and \<^verbatim>\<open>[a-zA-Z0-9_" ]\<close>.\<close>

definition wordChar :: "char \<Rightarrow> bool" where
  "wordChar c \<longleftrightarrow>
     c \<in> set ''abcdefghijklmnopqrstuvwxyzABCDEFGHIJKLMNOPQRSTUVWXYZ0123456789_''"

definition valueChar :: "char \<Rightarrow> bool" where
  "valueChar c \<longleftrightarrow> wordChar c \<or> c = CHR 0x22 \<or> c = CHR '' ''"

text \<open>\<^verbatim>\<open>stripPrefix p s\<close> is the rest of \<open>s\<close> after the literal \<open>p\<close>, when
  \<open>s\<close> starts with it.\<close>

definition stripPrefix :: "string \<Rightarrow> string \<Rightarrow> string option" where
  "stripPrefix p s = (if prefix p s then Some (drop (length p) s) else None)"

text \<open>
  The regular expression of \<^verbatim>\<open>parseInput\<close>,
  \<^verbatim>\<open>/(field|fieldtype)\(([a-zA-Z0-9_]+),"([a-zA-Z0-9_]+)",([a-zA-Z0-9_" ]+)/\<close>,
  tried at the start of a string. Each greedy class is followed by a literal whose first
  character is outside the class (or by the end of the expression), so the longest run is
  the only one a backtracking matcher can accept; \<^verbatim>\<open>field\<close> and
  \<^verbatim>\<open>fieldtype\<close> exclude each other once the parenthesis is read.
\<close>

definition matchArgs :: "string \<Rightarrow> ParseResult option" where
  "matchArgs r =
     (let k = takeWhile wordChar r; r1 = dropWhile wordChar r in
      if k = [] then None
      else (case stripPrefix '',\"'' r1 of
              None \<Rightarrow> None
            | Some r2 \<Rightarrow>
                (let f = takeWhile wordChar r2; r3 = dropWhile wordChar r2 in
                 if f = [] then None
                 else (case stripPrefix ''\",'' r3 of
                         None \<Rightarrow> None
                       | Some r4 \<Rightarrow>
                           (let v = takeWhile valueChar r4 in
                            if v = [] then None
                            else Some \<lparr>cardKey = k, field = f, value = v\<rparr>)))))"

definition matchHere :: "string \<Rightarrow> ParseResult option" where
  "matchHere s =
     (case stripPrefix ''field('' s of
        Some r \<Rightarrow> matchArgs r
      | None \<Rightarrow>
          (case stripPrefix ''fieldtype('' s of
             Some r \<Rightarrow> matchArgs r
           | None \<Rightarrow> None))"

text \<open>\<^verbatim>\<open>datum.match(regex)\<close> without the global flag: the match at the leftmost
  start position that has one.\<close>

fun regexMatch :: "string \<Rightarrow> ParseResult option" where
  "regexMatch [] = matchHere []"
| "regexMatch (c # cs) =
     (case matchHere (c # cs) of
        Some m \<Rightarrow> Some m
      | None \<Rightarrow> regexMatch cs)"

text \<open>The body of the loop of \<^verbatim>\<open>parseInput\<close>: one line, the results so far.\<close>

definition parseDatum :: "ParseResult list \<Rightarrow> string \<Rightarrow> ParseResult list" where
  "parseDatum results datum =
     (if datum \<noteq> [] then
        (case regexMatch datum of
           Some m \<Rightarrow> results @ [m]
         | None \<Rightarrow> results)
      else results)"

definition parseInput :: "string \<Rightarrow> ParseResult list" where
  "parseInput input = foldl parseDatum [] (split CHR 0x0A input)"

text \<open>\<^verbatim>\<open>parseClingoResult\<close>: \<open>None\<close> is the source's \<^verbatim>\<open>undefined\<close>.\<close>

definition parseClingoResult :: "string \<Rightarrow> ParseResult list option" where
  "parseClingoResult data =
     (let actual_result = substring0 data (indexOf data ''SATISFIABLE'') in
      if length actual_result = 0 then None
      else Some (parseInput actual_result))"

section \<open>Cards and the project layer\<close>

text \<open>
  A metadata value is a string or an array of strings. A scalar of another type is
  represented by the text that a template literal renders for it.
\<close>

datatype metavalue = Str string | Arr "string list"

datatype card =
  Card (key: string) (path: string)
       (metadata: "(string \<times> metavalue) list option")
       (children: "card list option")

datatype fetchCardDetails =
  Details (d_metadata: bool) (d_children: bool) (d_content: bool) (d_parent: bool)

text \<open>The details of a call that passes none, and those \<^verbatim>\<open>getCards\<close> asks for.\<close>

definition noDetails :: fetchCardDetails where
  "noDetails = Details False False False False"

definition subtreeDetails :: fetchCardDetails where
  "subtreeDetails = Details True True False False"

record calculationFile =
  calcPath :: "string option"
  calcName :: string

text \<open>
  The class \<^verbatim>\<open>Project\<close> is an external collaborator. A project object is taken as
  the data its members give while one operation runs: its folders, the result of
  \<^verbatim>\<open>cards()\<close>, the lookup \<^verbatim>\<open>findSpecificCard\<close> and the result of
  \<^verbatim>\<open>calculations()\<close>.
\<close>

record project =
  basePath :: string
  calculationFolder :: string
  cards :: "card list"
  findSpecificCard :: "string \<Rightarrow> fetchCardDetails \<Rightarrow> card option"
  calculations :: "calculationFile list"

text \<open>Modelled from the spec: \<^verbatim>\<open>Project.flattenCardArray\<close> is not part of the
  sources at hand; the spec has the affected set as a card plus its entire subtree, here
  in preorder.\<close>

fun flattenCard :: "card \<Rightarrow> card list" where
  "flattenCard (Card k p m ch) =
     Card k p m ch #
       (case ch of None \<Rightarrow> [] | Some cs \<Rightarrow> concat (map flattenCard cs))"

definition flattenCardArray :: "card list \<Rightarrow> card list" where
  "flattenCardArray cs = concat (map flattenCard cs)"

text \<open>\<^verbatim>\<open>getCards\<close>: all cards of the project, or the card that the project finds for
  the parent's key (its children removed) followed by its flattened subtree.\<close>

definition getCards :: "project \<Rightarrow> card option \<Rightarrow> card list" where
  "getCards p parentCard =
     (case parentCard of
        Some pc \<Rightarrow>
          (case findSpecificCard p (key pc) subtreeDetails of
             None \<Rightarrow> []
           | Some c \<Rightarrow>
               Card (key c) (path c) (metadata c) None #
                 (case children c of None \<Rightarrow> [] | Some ch \<Rightarrow> flattenCardArray ch))
      | None \<Rightarrow> cards p)"

section \<open>FactEncoder\<close>

text \<open>\<^verbatim>\<open>sep\<close> of \<^verbatim>\<open>node:path\<close>, with its POSIX value. No general theorem below
  depends on which character it is.\<close>

definition sep :: char where
  "sep = CHR ''/''"

text \<open>The helper \<^verbatim>\<open>parentPath\<close> of \<^verbatim>\<open>generateCardTree\<close>; \<open>None\<close> is
  \<^verbatim>\<open>undefined\<close>.\<close>

definition parentPath :: "string \<Rightarrow> string option" where
  "parentPath cardPath =
     (let pathParts = split sep cardPath in
      if at pathParts (int (length pathParts) - 2) = Some ''cardroot'' then Some []
      else at pathParts (int (length pathParts) - 3))"

fun joinWith :: "string \<Rightarrow> string list \<Rightarrow> string" where
  "joinWith s [] = []"
| "joinWith s [x] = x"
| "joinWith s (x # y # ys) = x @ s @ joinWith s (y # ys)"

text \<open>What a template literal renders for a value, and what \<^verbatim>\<open>for ... of\<close> iterates
  over: the elements of an array, the characters of a string.\<close>

fun render :: "metavalue \<Rightarrow> string" where
  "render (Str s) = s"
| "render (Arr xs) = joinWith '','' xs"

fun elements :: "metavalue \<Rightarrow> string list" where
  "elements (Str s) = map (\<lambda>c. [c]) s"
| "elements (Arr xs) = xs"

definition labelFact :: "string \<Rightarrow> string \<Rightarrow> string" where
  "labelFact k label = ''label('' @ k @ '', \"'' @ label @ ''\").\<newline>''"

definition fieldFact :: "string \<Rightarrow> string \<Rightarrow> metavalue \<Rightarrow> string" where
  "fieldFact k f v = ''field('' @ k @ '', \"'' @ f @ ''\", \"'' @ render v @ ''\").\<newline>''"

definition parentFact :: "string \<Rightarrow> string \<Rightarrow> string" where
  "parentFact k parentsPath = ''parent('' @ k @ '', '' @ parentsPath @ '').\<newline>''"

text \<open>One metadata entry appended to the logic program built so far.\<close>

definition entryFacts :: "string \<Rightarrow> string \<Rightarrow> string \<times> metavalue \<Rightarrow> string" where
  "entryFacts k logicProgram e =
     (if fst e = ''labels''
      then foldl (\<lambda>lp label. lp @ labelFact k label) logicProgram (elements (snd e))
      else logicProgram @ fieldFact k (fst e) (snd e))"

definition cardHeader :: "card \<Rightarrow> string" where
  "cardHeader c = ''\<newline>% '' @ key c @ ''\<newline>''"

text \<open>The text of one per-card unit is built in the body of the loop over the cards in
  \<^verbatim>\<open>generateCardTree\<close>. Its first part is the header and the facts of the metadata.\<close>

definition metadataFacts :: "card \<Rightarrow> string" where
  "metadataFacts c =
     (case metadata c of
        Some md \<Rightarrow> foldl (entryFacts (key c)) (cardHeader c) md
      | None \<Rightarrow> cardHeader c)"

text \<open>The parent fact follows, unless the parent's path is \<^verbatim>\<open>undefined\<close> or
  empty.\<close>

definition cardLogicProgram :: "card \<Rightarrow> string" where
  "cardLogicProgram c =
     (let parentsPath = parentPath (path c);
          logicProgram = metadataFacts c
      in case parentsPath of
           None \<Rightarrow> logicProgram
         | Some pp \<Rightarrow>
             if pp \<noteq> [] then logicProgram @ parentFact (key c) pp
             else logicProgram)"

section \<open>RuleSetAssembler: the fixed texts and the unit names\<close>

definition logicBinaryName :: string where
  "logicBinaryName = ''clingo''"

definition baseLogicFileName :: string where
  "baseLogicFileName = ''base.lp''"

definition cardTreeFileName :: string where
  "cardTreeFileName = ''cardtree.lp''"

definition modulesFileName :: string where
  "modulesFileName = ''modules.lp''"

definition mainLogicFileName :: string where
  "mainLogicFileName = ''main.lp''"

definition commonDefinitions :: string where
  "commonDefinitions =
     ''\<newline>%\<newline>% Common definitions for all Cards projects\<newline>%\<newline>\<newline>'' @
     ''% parent and ancestor\<newline>'' @
     ''ancestor(A, C) :- parent(A, C), card(A), card(B).\<newline>'' @
     ''ancestor(A, C) :- parent(A, B), ancestor (B, C), card(A), card(B), card(C).\<newline>\<newline>'' @
     ''% if the cardtype is given, then it's a card\<newline>'' @
     ''card(C) :- field(C, \"cardtype\", _).\<newline>\<newline>'' @
     ''% the default fields are not calculated, so let's mark them as user fields.\<newline>'' @
     ''userfield(Cardkey, \"cardtype\") :- field(Cardkey, \"cardtype\", Cardtype).\<newline>'' @
     ''userfield(Cardkey, \"summary\") :- field(Cardkey, \"cardtype\", Cardtype).\<newline>'' @
     ''userfield(Cardkey, \"workflowState\") :- field(Cardkey, \"cardtype\", Cardtype).\<newline>\<newline>'' @
     ''% if all values of a field are cardkeys, then the field is of type \"cardkeys\"\<newline>'' @
     ''fieldtype(X, Field, \"cardkeys\") :- field(X, Field, _), card(Value) : field(X, Field, Value).\<newline>\<newline>''"

definition mainLogicFile :: string where
  "mainLogicFile =
     ''\<newline>#include \"base.lp\".\<newline>#include \"cardtree.lp\".\<newline>#include \"modules.lp\".\<newline>''"

text \<open>One row of \<^verbatim>\<open>cardtree.lp\<close>, and one of \<^verbatim>\<open>modules.lp\<close>.\<close>

definition includeRow :: "string \<Rightarrow> string" where
  "includeRow k = ''#include \"cards/'' @ k @ ''.lp\".\<newline>''"

definition moduleRow :: "string \<Rightarrow> string" where
  "moduleRow moduleLogicFile = ''#include \"'' @ moduleLogicFile @ ''\".\<newline>''"

section \<open>Paths and files\<close>

text \<open>
  \<^verbatim>\<open>join\<close> of \<^verbatim>\<open>node:path\<close> is modelled as concatenation with the separator. Its
  normalisation of empty, \<^verbatim>\<open>.\<close> and \<^verbatim>\<open>..\<close> segments is left out, which is exact
  for folders in normal form and card keys that are plain file names.
\<close>

definition join :: "string \<Rightarrow> string \<Rightarrow> string" where
  "join a b = a @ sep # b"

text \<open>\<^verbatim>\<open>basename\<close> of \<^verbatim>\<open>node:path\<close>: the last segment, trailing separators
  ignored.\<close>

definition basename :: "string \<Rightarrow> string" where
  "basename s = last (split sep (rev (dropWhile (\<lambda>c. c = sep) (rev s))))"

text \<open>
  The state the operations act on: the static member \<^verbatim>\<open>Calculate.project\<close>, the
  files (path to content) and folders of the file system, and the lines written with
  \<^verbatim>\<open>console.error\<close>. Asynchronous writes joined by \<^verbatim>\<open>Promise.all\<close> are applied in
  program order; they go to pairwise different paths, the units of two cards with one key
  apart. Input and output that fails is not modelled, except the read of a path that is
  no file.
\<close>

record world =
  project :: "project option"
  files :: "string \<rightharpoonup> string"
  dirs :: "string set"
  console :: "string list"

definition writeFile :: "string \<Rightarrow> string \<Rightarrow> world \<Rightarrow> world" where
  "writeFile f content w = w\<lparr>files := (files w)(f \<mapsto> content)\<rparr>"

text \<open>\<^verbatim>\<open>mkdir\<close> with \<^verbatim>\<open>recursive: true\<close> of the folder \<^verbatim>\<open>cards\<close> inside the
  calculation folder: both folders exist afterwards.\<close>

definition mkdirCards :: "string \<Rightarrow> world \<Rightarrow> world" where
  "mkdirCards folder w = w\<lparr>dirs := insert (join folder ''cards'') (insert folder (dirs w))\<rparr>"

text \<open>Modelled from the spec: \<^verbatim>\<open>pathExists\<close> and \<^verbatim>\<open>deleteFile\<close> of
  \<^verbatim>\<open>utils/file-utils\<close> are not part of the sources at hand; a path exists when it
  names a file or a folder, and deleting a file removes it.\<close>

definition pathExists :: "world \<Rightarrow> string \<Rightarrow> bool" where
  "pathExists w f \<longleftrightarrow> files w f \<noteq> None \<or> f \<in> dirs w"

definition deleteFile :: "string \<Rightarrow> world \<Rightarrow> world" where
  "deleteFile f w = w\<lparr>files := (files w)(f := None)\<rparr>"

text \<open>What an operation can throw: a thrown message, the \<^verbatim>\<open>TypeError\<close> of a member
  read on \<^verbatim>\<open>undefined\<close>, and a failed read of a path that is no file.\<close>

datatype fault = Thrown string | TypeError | ReadError string

record requestStatus =
  statusCode :: nat
  message :: "string option"
  payload :: "ParseResult list option"

text \<open>The environment: the constructor \<^verbatim>\<open>new Project(path)\<close>, the static
  \<^verbatim>\<open>Project.findProjectRoot\<close>, and \<^verbatim>\<open>spawnSync\<close> (binary, arguments, input).\<close>

record spawnResult =
  stdout :: "string option"
  stderr :: "string option"
  status :: "int option"

record env =
  newProject :: "string \<Rightarrow> project"
  findProjectRoot :: "string \<Rightarrow> string option"
  spawnSync :: "string \<Rightarrow> string list \<Rightarrow> string \<Rightarrow> spawnResult"

section \<open>IncrementalUpdater\<close>

definition generateBase :: "project \<Rightarrow> card option \<Rightarrow> world \<Rightarrow> world" where
  "generateBase p parentCard w =
     (case parentCard of
        Some c \<Rightarrow> w
      | None \<Rightarrow> writeFile (join (calculationFolder p) baseLogicFileName) commonDefinitions w)"

definition generateCardTree :: "project \<Rightarrow> card option \<Rightarrow> world \<Rightarrow> world" where
  "generateCardTree p parentCard w =
     (let destinationFile = join (calculationFolder p) cardTreeFileName;
          destinationFileBase = join (calculationFolder p) ''cards'';
          cs = getCards p parentCard;
          w1 = foldl (\<lambda>w' c. writeFile (join destinationFileBase (key c) @ ''.lp'')
                                 (cardLogicProgram c) w') w cs;
          allCards = (case parentCard of Some c \<Rightarrow> cards p | None \<Rightarrow> cs);
          cardTreeContent = foldl (\<lambda>content c. content @ includeRow (key c)) [] allCards
      in writeFile destinationFile cardTreeContent w1)"

definition generateMainLogicFile :: "project \<Rightarrow> card option \<Rightarrow> world \<Rightarrow> world" where
  "generateMainLogicFile p parentCard w =
     (case parentCard of
        Some c \<Rightarrow> w
      | None \<Rightarrow> writeFile (join (calculationFolder p) mainLogicFileName) mainLogicFile w)"

definition moduleRows :: "string \<Rightarrow> calculationFile \<Rightarrow> string" where
  "moduleRows modulesContent calculationFile =
     (case calcPath calculationFile of
        None \<Rightarrow> modulesContent
      | Some cp \<Rightarrow>
          if cp \<noteq> []
          then modulesContent @ moduleRow (join cp (basename (calcName calculationFile)))
          else modulesContent)"

definition generateModules :: "project \<Rightarrow> card option \<Rightarrow> world \<Rightarrow> world" where
  "generateModules p parentCard w =
     (case parentCard of
        Some c \<Rightarrow> w
      | None \<Rightarrow>
          writeFile (join (calculationFolder p) modulesFileName)
            (foldl moduleRows [] (calculations p)) w)"

definition notInProject :: "card \<Rightarrow> fault" where
  "notInProject c = Thrown (''Card '' @ [CHR 0x27] @ key c @ [CHR 0x27] @ '' not in project structure'')"

definition setCalculateProject :: "env \<Rightarrow> card option \<Rightarrow> world \<Rightarrow> fault + world" where
  "setCalculateProject e c w =
     (case project w of
        Some p \<Rightarrow> Inr w
      | None \<Rightarrow>
          (case c of
             None \<Rightarrow> Inl TypeError
           | Some cd \<Rightarrow>
               (case findProjectRoot e (path cd) of
                  None \<Rightarrow> Inl (notInProject cd)
                | Some root \<Rightarrow>
                    if root \<noteq> [] then Inr (w\<lparr>project := Some (newProject e root)\<rparr>)
                    else Inl (notInProject cd))))"

definition notFound :: "string \<Rightarrow> requestStatus" where
  "notFound k =
     \<lparr>statusCode = 400,
      message = Some (''Card '' @ [CHR 0x27] @ k @ [CHR 0x27] @ '' not found''),
      payload = None\<rparr>"

definition ok :: requestStatus where
  "ok = \<lparr>statusCode = 200, message = None, payload = None\<rparr>"

text \<open>The four steps of \<^verbatim>\<open>generate\<close> after the card is resolved.\<close>

definition generateUnits :: "project \<Rightarrow> card option \<Rightarrow> world \<Rightarrow> world" where
  "generateUnits p c w =
     generateMainLogicFile p c
       (generateModules p c
         (generateCardTree p c
           (generateBase p c
             (mkdirCards (calculationFolder p) w))))"

text \<open>\<^verbatim>\<open>generate\<close>: the optional card key counts as given when it is a non-empty
  string.\<close>

definition generate :: "env \<Rightarrow> string \<Rightarrow> string option \<Rightarrow> world \<Rightarrow> requestStatus \<times> world" where
  "generate e projectPath key_opt w =
     (let p = newProject e projectPath;
          w1 = w\<lparr>project := Some p\<rparr>
      in case key_opt of
           None \<Rightarrow> (ok, generateUnits p None w1)
         | Some k \<Rightarrow>
             if k \<noteq> [] then
               (case findSpecificCard p k noDetails of
                  None \<Rightarrow> (notFound k, w1)
                | Some c \<Rightarrow> (ok, generateUnits p (Some c) w1))
             else (ok, generateUnits p None w1))"

definition handleCardChanged :: "env \<Rightarrow> card \<Rightarrow> world \<Rightarrow> fault + requestStatus \<times> world" where
  "handleCardChanged e changedCard w =
     (case setCalculateProject e (Some changedCard) w of
        Inl f \<Rightarrow> Inl f
      | Inr w1 \<Rightarrow>
          (case project w1 of
             None \<Rightarrow> Inl TypeError
           | Some p \<Rightarrow> Inr (ok, snd (generate e (basePath p) (Some (key changedCard)) w1))))"

definition calculationsForTreeExist :: "project \<Rightarrow> world \<Rightarrow> bool" where
  "calculationsForTreeExist p w \<longleftrightarrow>
     pathExists w (join (calculationFolder p) cardTreeFileName) \<and>
     pathExists w (calculationFolder p)"

text \<open>One round of the loop of \<^verbatim>\<open>handleDeleteCard\<close>, on the world and the content of
  the aggregator read before the loop.\<close>

definition deleteStep :: "project \<Rightarrow> world \<times> string \<Rightarrow> card \<Rightarrow> world \<times> string" where
  "deleteStep p st c =
     (let cardCalculationsFile = join (join (calculationFolder p) ''cards'') (key c @ ''.lp'');
          w1 = (if pathExists (fst st) cardCalculationsFile
                then deleteFile cardCalculationsFile (fst st) else fst st)
      in (w1, removeFirst (includeRow (key c)) (snd st)))"

definition handleDeleteCard :: "env \<Rightarrow> card option \<Rightarrow> world \<Rightarrow> fault + world" where
  "handleDeleteCard e deletedCard w =
     (case deletedCard of
        None \<Rightarrow> Inr w
      | Some d \<Rightarrow>
          (case setCalculateProject e (Some d) w of
             Inl f \<Rightarrow> Inl f
           | Inr w1 \<Rightarrow>
               (case project w1 of
                  None \<Rightarrow> Inl TypeError
                | Some p \<Rightarrow>
                    (let affectedCards = getCards p (Some d);
                         cardTreeFile = join (calculationFolder p) cardTreeFileName
                     in if calculationsForTreeExist p w1 then
                          (case files w1 cardTreeFile of
                             None \<Rightarrow> Inl (ReadError cardTreeFile)
                           | Some content \<Rightarrow>
                               (let st = foldl (deleteStep p) (w1, content) affectedCards
                                in Inr (writeFile cardTreeFile (snd st) (fst st))))
                        else Inr (fst (foldl (deleteStep p) (w1, []) affectedCards))))))"

definition handleNewCards :: "env \<Rightarrow> card list option \<Rightarrow> world \<Rightarrow> fault + world" where
  "handleNewCards e newCards w =
     (case newCards of
        None \<Rightarrow> Inr w
      | Some cs \<Rightarrow>
          (case setCalculateProject e (case cs of [] \<Rightarrow> None | c # rest \<Rightarrow> Some c) w of
             Inl f \<Rightarrow> Inl f
           | Inr w1 \<Rightarrow>
               (case project w1 of
                  None \<Rightarrow> Inl TypeError
                | Some p \<Rightarrow>
                    if \<not> calculationsForTreeExist p w1 then Inr w1
                    else Inr (foldl (\<lambda>w' c. generateCardTree p (Some c) w') w1 cs))))"

section \<open>SolverInvoker\<close>

definition E_UNKNOWN :: int where
  "E_UNKNOWN = 0"

definition E_INTERRUPT :: int where
  "E_INTERRUPT = 1"

definition E_SAT :: int where
  "E_SAT = 10"

definition E_EXHAUST :: int where
  "E_EXHAUST = 20"

definition E_MEMORY :: int where
  "E_MEMORY = 33"

definition E_ERROR :: int where
  "E_ERROR = 65"

definition E_NO_RUN :: int where
  "E_NO_RUN = 128"

text \<open>The lines the status branch of \<^verbatim>\<open>run\<close> writes with \<^verbatim>\<open>console.error\<close>. The
  operator \<^verbatim>\<open>&\<close> with these masks reads the low eight bits only, so it is the bitwise
  conjunction of integers.\<close>

definition exitDiagnostics :: "int \<Rightarrow> string list" where
  "exitDiagnostics code =
     (if \<not> (code AND E_SAT \<noteq> 0 \<and> code AND E_EXHAUST \<noteq> 0) then
        (if code AND E_ERROR \<noteq> 0 then [''Error''] else []) @
        (if code AND E_INTERRUPT \<noteq> 0 then [''Interrupted''] else []) @
        (if code AND E_MEMORY \<noteq> 0 then [''Out of memory''] else []) @
        (if code AND E_NO_RUN \<noteq> 0 then [''Not run''] else []) @
        (if code AND E_UNKNOWN \<noteq> 0 then [''Unknown error''] else [])
      else [])"

definition queryText :: "string \<Rightarrow> string" where
  "queryText k =
     ''\<newline>            #show.'' @
     ''\<newline>            #show field(Cardkey, Field, Value):'' @
     ''\<newline>                field(Cardkey, Field, Value),'' @
     ''\<newline>                Cardkey = '' @ k @ '','' @
     ''\<newline>                not userfield(Cardkey, Field).'' @
     ''\<newline>            #show fieldtype(Cardkey, Field, Fieldtype):'' @
     ''\<newline>                fieldtype(Cardkey, Field, Fieldtype),'' @
     ''\<newline>                Cardkey = '' @ k @ '','' @
     ''\<newline>                not userfield(Cardkey, Field).''"

definition installClingo :: string where
  "installClingo =
     ''Cannot find \"Clingo\". Please install \"Clingo\".\<newline>'' @
     ''If using MacOs: \"brew install clingo\".\<newline>'' @
     ''If using Windows: download sources and compile new version.\<newline>'' @
     ''If using Linux: check if your distribution contains pre-built package. '' @
     ''Otherwise download sources and compile.''"

text \<open>A string that may be \<^verbatim>\<open>null\<close> is truthy when it is a non-empty string.\<close>

definition truthy :: "string option \<Rightarrow> bool" where
  "truthy s \<longleftrightarrow> (case s of None \<Rightarrow> False | Some t \<Rightarrow> t \<noteq> [])"

text \<open>The call of the solver in \<^verbatim>\<open>run\<close>: the query text on standard input, the
  main unit as the last argument.\<close>

definition solverCall :: "env \<Rightarrow> project \<Rightarrow> card \<Rightarrow> spawnResult" where
  "solverCall e p c =
     (let text = queryText (key c);
          main = join (calculationFolder p) mainLogicFileName
      in spawnSync e logicBinaryName
           [''-'', ''--outf=0'', ''--out-ifs='' @ [CHR 0x5C] @ ''n'', ''-V0'', main] text)"

definition run :: "env \<Rightarrow> string \<Rightarrow> string \<Rightarrow> world \<Rightarrow> requestStatus \<times> world" where
  "run e projectPath k w =
     (let p = newProject e projectPath;
          w1 = w\<lparr>project := Some p\<rparr>
      in case findSpecificCard p k noDetails of
           None \<Rightarrow> (notFound k, w1)
         | Some c \<Rightarrow>
             (let clingo = solverCall e p c
              in if truthy (stdout clingo) then
                   (\<lparr>statusCode = 200, message = None,
                     payload = parseClingoResult (the (stdout clingo))\<rparr>, w1)
                 else if truthy (stderr clingo) \<and> status clingo \<noteq> None \<and> status clingo \<noteq> Some 0 then
                   (\<lparr>statusCode = 400, message = Some ''Clingo error'', payload = None\<rparr>,
                    w1\<lparr>console := console w1 @ exitDiagnostics (the (status clingo))\<rparr>)
                 else (\<lparr>statusCode = 500, message = Some installClingo, payload = None\<rparr>, w1)))"

section \<open>A small project\<close>

text \<open>The project of the end-to-end example: a card \<^verbatim>\<open>root\<close> at the root of the
  tree with the children \<^verbatim>\<open>childA\<close> (labelled urgent) and \<^verbatim>\<open>childB\<close>.\<close>

definition exChildA :: card where
  "exChildA = Card ''childA'' ''/proj/cardroot/root/c/childA''
                (Some [(''cardtype'', Str ''page''), (''labels'', Arr [''urgent''])]) None"

definition exChildB :: card where
  "exChildB = Card ''childB'' ''/proj/cardroot/root/c/childB''
                (Some [(''cardtype'', Str ''page'')]) None"

definition exRoot :: card where
  "exRoot = Card ''root'' ''/proj/cardroot/root''
              (Some [(''cardtype'', Str ''page'')]) (Some [exChildA, exChildB])"

definition exFind :: "string \<Rightarrow> fetchCardDetails \<Rightarrow> card option" where
  "exFind k d =
     (if k = ''root'' then Some exRoot
      else if k = ''childA'' then Some exChildA
      else if k = ''childB'' then Some exChildB
      else None)"

definition exProject :: "string \<Rightarrow> project" where
  "exProject root =
     \<lparr>basePath = root, calculationFolder = join root ''.calc'',
      cards = [exRoot, exChildA, exChildB], findSpecificCard = exFind,
      calculations = [\<lparr>calcPath = Some ''/proj/.calc/resources'', calcName = ''base/rules.lp''\<rparr>]\<rparr>"

definition exEnv :: "spawnResult \<Rightarrow> env" where
  "exEnv r =
     \<lparr>newProject = exProject,
      findProjectRoot = (\<lambda>p. if prefix ''/proj/'' p then Some ''/proj'' else None),
      spawnSync = (\<lambda>binary args input. r)\<rparr>"

definition noSolver :: spawnResult where
  "noSolver = \<lparr>stdout = None, stderr = None, status = None\<rparr>"

definition exWorld :: world where
  "exWorld = \<lparr>project = None, files = Map.empty, dirs = {}, console = []\<rparr>"

section \<open>Notions used in the statements\<close>

text \<open>The path of the per-card unit of a key, and the path of the cardtree aggregator of a
  project.\<close>

definition cardUnitFile :: "project \<Rightarrow> string \<Rightarrow> string" where
  "cardUnitFile p k = join (join (calculationFolder p) ''cards'') k @ ''.lp''"

definition cardTreeFile :: "project \<Rightarrow> string" where
  "cardTreeFile p = join (calculationFolder p) cardTreeFileName"

text \<open>The writes of the per-card units of a list of cards, in order: the first loop of
  \<^verbatim>\<open>generateCardTree\<close>.\<close>

definition writeUnits :: "project \<Rightarrow> card list \<Rightarrow> world \<Rightarrow> world" where
  "writeUnits p cs w =
     foldl (\<lambda>w' c. writeFile (cardUnitFile p (key c)) (cardLogicProgram c) w') w cs"

text \<open>A list of writes (path, content) applied in order.\<close>

definition applyWrites :: "(string \<times> string) list \<Rightarrow> world \<Rightarrow> world" where
  "applyWrites ws w = foldl (\<lambda>w' fc. writeFile (fst fc) (snd fc) w') w ws"

definition unitWrites :: "project \<Rightarrow> card list \<Rightarrow> (string \<times> string) list" where
  "unitWrites p cs = map (\<lambda>c. (cardUnitFile p (key c), cardLogicProgram c)) cs"

text \<open>All writes of an unscoped generation.\<close>

definition fullScript :: "project \<Rightarrow> (string \<times> string) list" where
  "fullScript p =
     (join (calculationFolder p) baseLogicFileName, commonDefinitions) #
     unitWrites p (cards p) @
     [(cardTreeFile p, concat (map (\<lambda>c. includeRow (key c)) (cards p))),
      (join (calculationFolder p) modulesFileName, foldl moduleRows [] (calculations p)),
      (join (calculationFolder p) mainLogicFileName, mainLogicFile)]"

text \<open>The shape of a derived fact that the result grammar admits.\<close>

definition wellShaped :: "ParseResult \<Rightarrow> bool" where
  "wellShaped r \<longleftrightarrow>
     cardKey r \<noteq> [] \<and> list_all wordChar (cardKey r) \<and>
     field r \<noteq> [] \<and> list_all wordChar (field r) \<and>
     value r \<noteq> [] \<and> list_all valueChar (value r)"

text \<open>The paths of the per-card units of a list of cards.\<close>

definition unitPaths :: "project \<Rightarrow> card list \<Rightarrow> string set" where
  "unitPaths p cs = (\<lambda>c. cardUnitFile p (key c)) ` set cs"


text \<open>The aggregator rows of a list of keys, and the content left when the loop of
  \<^verbatim>\<open>handleDeleteCard\<close> has removed the rows of a list of cards from a content.\<close>

definition rows :: "string list \<Rightarrow> string" where
  "rows ks = concat (map includeRow ks)"


definition removeRows :: "string \<Rightarrow> card list \<Rightarrow> string" where
  "removeRows content cs = foldl (\<lambda>t c. removeFirst (includeRow (key c)) t) content cs"


text \<open>The loop of \<^verbatim>\<open>handleNewCards\<close>.\<close>

definition newCardsLoop :: "project \<Rightarrow> card list \<Rightarrow> world \<Rightarrow> world" where
  "newCardsLoop p cs w = foldl (\<lambda>w' c. generateCardTree p (Some c) w') w cs"


text \<open>A key that contains neither the character that starts a row nor a newline.\<close>

definition cleanKey :: "string \<Rightarrow> bool" where
  "cleanKey k \<longleftrightarrow> CHR ''#'' \<notin> set k \<and> CHR 0x0A \<notin> set k"


text \<open>The cards of the subtrees, as the project resolves them, of a list of cards.\<close>

definition subtreeCards :: "project \<Rightarrow> card list \<Rightarrow> card set" where
  "subtreeCards p cs = (\<Union>c \<in> set cs. set (getCards p (Some c)))"

section \<open>States and inputs of the examples\<close>

text \<open>The calculation folder after a generation made while the project had no cards.\<close>

definition exEmptyCorpus :: world where
  "exEmptyCorpus =
     \<lparr>project = None,
      files = [''/proj/.calc/cardtree.lp'' \<mapsto> []],
      dirs = {''/proj/.calc'', ''/proj/.calc/cards''},
      console = []\<rparr>"

text \<open>A generated corpus of the three cards, of which the unit of \<^verbatim>\<open>childA\<close> is
  shown.\<close>

definition exCorpus :: world where
  "exCorpus =
     \<lparr>project = None,
      files = [''/proj/.calc/cardtree.lp'' \<mapsto>
                 includeRow ''root'' @ includeRow ''childA'' @ includeRow ''childB'',
               ''/proj/.calc/cards/childA.lp'' \<mapsto> cardLogicProgram exChildA],
      dirs = {''/proj/.calc'', ''/proj/.calc/cards''},
      console = []\<rparr>"

text \<open>A calculation folder that holds a per-card unit and no aggregator.\<close>

definition exOrphan :: world where
  "exOrphan =
     \<lparr>project = None,
      files = [''/proj/.calc/cards/childA.lp'' \<mapsto> ''% stale''],
      dirs = {''/proj/.calc'', ''/proj/.calc/cards''},
      console = []\<rparr>"

text \<open>The empty state with the project bound.\<close>

definition exBound :: world where
  "exBound = exWorld\<lparr>project := Some (exProject ''/proj'')\<rparr>"

text \<open>The generated corpus with the project bound, and a card object with the key of
  \<^verbatim>\<open>childA\<close> whose path lies under no project root.\<close>

definition exBoundCorpus :: world where
  "exBoundCorpus = exCorpus\<lparr>project := Some (exProject ''/proj'')\<rparr>"

definition exStray :: card where
  "exStray = Card ''childA'' ''/elsewhere/childA'' None None"

text \<open>Outcomes of the solver: it wrote to standard error only and exited with the status
  for a satisfiable, exhausted search, or with the status of an error.\<close>

definition exitedWith :: "int \<Rightarrow> spawnResult" where
  "exitedWith code = \<lparr>stdout = Some [], stderr = Some ''*** ERROR: (clingo)'', status = Some code\<rparr>"

section \<open>The result parser\<close>

lemma indexOf_nonneg_sublist: "0 \<le> indexOf s t \<Longrightarrow> sublist t s"
proof (induction s)
  case Nil
  then show ?case by (simp split: if_splits)
next
  case (Cons c cs)
  show ?case
  proof (cases "prefix t (c # cs)")
    case True
    then show ?thesis by (rule prefix_imp_sublist)
  next
    case False
    with Cons.prems have "0 \<le> indexOf cs t"
      by (simp add: Let_def split: if_splits)
    then have "sublist t cs" by (rule Cons.IH)
    then show ?thesis by (simp add: sublist_Cons_right)
  qed
qed

lemma parseClingoResult_no_marker:
  assumes "\<not> sublist ''SATISFIABLE'' data"
  shows "parseClingoResult data = None"
proof -
  have "\<not> 0 \<le> indexOf data ''SATISFIABLE''"
    using assms indexOf_nonneg_sublist by blast
  then show ?thesis by (simp add: parseClingoResult_def substring0_def)
qed

lemma matchArgs_shape: "matchArgs r = Some m \<Longrightarrow> wellShaped m"
  by (auto simp: matchArgs_def wellShaped_def Let_def list_all_iff
      split: if_splits option.splits dest: set_takeWhileD)

lemma matchHere_shape: "matchHere s = Some m \<Longrightarrow> wellShaped m"
  by (auto simp: matchHere_def split: option.splits dest: matchArgs_shape)

lemma regexMatch_shape: "regexMatch s = Some m \<Longrightarrow> wellShaped m"
  by (induction s) (auto split: option.splits dest: matchHere_shape)

lemma parseDatum_append: "parseDatum acc l = acc @ parseDatum [] l"
  by (simp add: parseDatum_def split: option.splits)

lemma foldl_parseDatum: "foldl parseDatum acc ls = acc @ concat (map (parseDatum []) ls)"
proof (induction ls arbitrary: acc)
  case Nil
  then show ?case by simp
next
  case (Cons l ls)
  have "foldl parseDatum acc (l # ls) = foldl parseDatum (parseDatum acc l) ls" by simp
  also have "\<dots> = parseDatum acc l @ concat (map (parseDatum []) ls)" by (rule Cons.IH)
  also have "\<dots> = acc @ parseDatum [] l @ concat (map (parseDatum []) ls)"
    using parseDatum_append [of acc l] by simp
  finally show ?case by simp
qed

lemma parseDatum_shape:
  assumes "m \<in> set (parseDatum [] l)"
  shows "wellShaped m"
proof (cases "regexMatch l")
  case None
  then have "parseDatum [] l = []" by (simp add: parseDatum_def)
  with assms show ?thesis by simp
next
  case (Some r)
  then have "parseDatum [] l = [] \<or> parseDatum [] l = [r]" by (simp add: parseDatum_def)
  with assms have "m = r" by auto
  with Some show ?thesis by (simp add: regexMatch_shape)
qed

lemma parseDatum_length: "length (parseDatum [] l) \<le> 1"
  by (simp add: parseDatum_def split: option.splits)

lemma parseInput_lines: "parseInput input = concat (map (parseDatum []) (split CHR 0x0A input))"
  by (simp add: parseInput_def foldl_parseDatum)

text \<open>
  Claim C2, as the code has it. The output \<^verbatim>\<open>field(card1,"priority","3")\<close> followed by
  the marker \<^verbatim>\<open>SATISFIABLE\<close> parses to exactly one derived fact with card key
  \<^verbatim>\<open>card1\<close> and field \<^verbatim>\<open>priority\<close>; its value is the text between the last comma
  and the closing parenthesis, the three characters \<^verbatim>\<open>"3"\<close> with their double quotes.
  An output that does not contain the marker parses to no result (\<^verbatim>\<open>undefined\<close>),
  and nothing is thrown.
\<close>

theorem parseClingoResult_example_and_no_marker:
  "parseClingoResult (''field(card1,\"priority\",\"3\")'' @ ''\<newline>'' @ ''SATISFIABLE'') =
     Some [\<lparr>cardKey = ''card1'', field = ''priority'', value = ''\"3\"''\<rparr>] \<and>
   (\<forall>data. \<not> sublist ''SATISFIABLE'' data \<longrightarrow> parseClingoResult data = None)"
proof -
  have "parseClingoResult (''field(card1,\"priority\",\"3\")'' @ ''\<newline>'' @ ''SATISFIABLE'') =
     Some [\<lparr>cardKey = ''card1'', field = ''priority'', value = ''\"3\"''\<rparr>]"
    by code_simp
  then show ?thesis by (simp add: parseClingoResult_no_marker)
qed

theorem parseClingoResult_example_and_no_marker_witness:
  "\<not> sublist ''SATISFIABLE'' ''-:1:7-8: error: syntax error, unexpected .'' \<and>
   parseClingoResult ''-:1:7-8: error: syntax error, unexpected .'' = None"
proof -
  have absent: "\<not> sublist ''SATISFIABLE'' ''-:1:7-8: error: syntax error, unexpected .''"
    by code_simp
  from parseClingoResult_example_and_no_marker absent
  have "parseClingoResult ''-:1:7-8: error: syntax error, unexpected .'' = None"
    by blast
  with absent show ?thesis by simp
qed

text \<open>The value of that derived fact is not the one-character text \<^verbatim>\<open>3\<close>.\<close>

theorem parseClingoResult_value_counterexample:
  "parseClingoResult (''field(card1,\"priority\",\"3\")'' @ ''\<newline>'' @ ''SATISFIABLE'') \<noteq>
     Some [\<lparr>cardKey = ''card1'', field = ''priority'', value = ''3''\<rparr>]"
  by code_simp

text \<open>
  Claim C10. The result-line parser returns a list for every input. The list is the
  concatenation, over the lines of the input split at newlines, of what each line
  contributes; a line contributes at most one derived fact, and the empty line and a line
  without a match contribute none. In every returned fact the card key and the field
  are non-empty and consist of ASCII letters, digits and underscores, and the value is
  non-empty and consists of these, double quotes and spaces.
\<close>

theorem parseInput_total_shape:
  "parseInput input = concat (map (parseDatum []) (split CHR 0x0A input)) \<and>
   (\<forall>l. length (parseDatum [] l) \<le> 1) \<and>
   parseDatum [] [] = [] \<and>
   (\<forall>l. regexMatch l = None \<longrightarrow> parseDatum [] l = []) \<and>
   (\<forall>r \<in> set (parseInput input). wellShaped r)"
proof -
  have shape: "wellShaped r" if "r \<in> set (parseInput input)" for r
    using that unfolding parseInput_lines by (auto dest: parseDatum_shape)
  have none: "parseDatum [] l = []" if "regexMatch l = None" for l
    using that by (simp add: parseDatum_def)
  have empty: "parseDatum [] [] = []" by (simp add: parseDatum_def)
  show ?thesis
    using parseInput_lines shape none empty parseDatum_length by blast
qed

theorem parseInput_total_shape_witness:
  "parseInput (''% noise'' @ ''\<newline>\<newline>'' @ ''fieldtype(c_1,\"owner\",\"cardkeys\")'') =
     [\<lparr>cardKey = ''c_1'', field = ''owner'', value = ''\"cardkeys\"''\<rparr>] \<and>
   regexMatch ''% noise'' = None \<and>
   parseDatum [] ''% noise'' = [] \<and>
   wellShaped \<lparr>cardKey = ''c_1'', field = ''owner'', value = ''\"cardkeys\"''\<rparr>"
proof -
  have ev: "parseInput (''% noise'' @ ''\<newline>\<newline>'' @ ''fieldtype(c_1,\"owner\",\"cardkeys\")'') =
     [\<lparr>cardKey = ''c_1'', field = ''owner'', value = ''\"cardkeys\"''\<rparr>]"
    by code_simp
  have no: "regexMatch ''% noise'' = None"
    by code_simp
  from parseInput_total_shape [of "''% noise'' @ ''\<newline>\<newline>'' @ ''fieldtype(c_1,\"owner\",\"cardkeys\")''"]
  have "(\<forall>l. regexMatch l = None \<longrightarrow> parseDatum [] l = []) \<and>
        (\<forall>r \<in> set (parseInput (''% noise'' @ ''\<newline>\<newline>'' @ ''fieldtype(c_1,\"owner\",\"cardkeys\")'')).
            wellShaped r)"
    by blast
  with ev no show ?thesis by simp
qed

section \<open>Paths, writes and the steps of generation\<close>

lemma unit_ne_fixed:
  "cardUnitFile p k \<noteq> join (calculationFolder p) baseLogicFileName"
  "cardUnitFile p k \<noteq> join (calculationFolder p) cardTreeFileName"
  "cardUnitFile p k \<noteq> join (calculationFolder p) modulesFileName"
  "cardUnitFile p k \<noteq> join (calculationFolder p) mainLogicFileName"
  by (simp_all add: cardUnitFile_def join_def baseLogicFileName_def cardTreeFileName_def
      modulesFileName_def mainLogicFileName_def)

lemma fixed_distinct:
  "join f baseLogicFileName \<noteq> join f cardTreeFileName"
  "join f modulesFileName \<noteq> join f cardTreeFileName"
  "join f mainLogicFileName \<noteq> join f cardTreeFileName"
  "join f baseLogicFileName \<noteq> join f modulesFileName"
  "join f baseLogicFileName \<noteq> join f mainLogicFileName"
  "join f modulesFileName \<noteq> join f mainLogicFileName"
  by (simp_all add: join_def baseLogicFileName_def cardTreeFileName_def
      modulesFileName_def mainLogicFileName_def)

lemma cardUnitFile_inj: "cardUnitFile p k = cardUnitFile p k' \<longleftrightarrow> k = k'"
  by (simp add: cardUnitFile_def join_def)

lemma includeRow_inj: "includeRow k = includeRow k' \<longleftrightarrow> k = k'"
  by (simp add: includeRow_def)

lemma foldl_rows: "foldl (\<lambda>content c. content @ includeRow (key c)) acc cs
    = acc @ concat (map (\<lambda>c. includeRow (key c)) cs)"
  by (induction cs arbitrary: acc) simp_all

lemma writeUnits_simps:
  "writeUnits p [] w = w"
  "writeUnits p (c # cs) w = writeUnits p cs (writeFile (cardUnitFile p (key c)) (cardLogicProgram c) w)"
  by (simp_all add: writeUnits_def)

lemma writeUnits_fields:
  "project (writeUnits p cs w) = project w"
  "dirs (writeUnits p cs w) = dirs w"
  "console (writeUnits p cs w) = console w"
  by (induction cs arbitrary: w) (simp_all add: writeUnits_simps writeFile_def)

lemma writeUnits_other:
  "x \<notin> (\<lambda>c. cardUnitFile p (key c)) ` set cs \<Longrightarrow> files (writeUnits p cs w) x = files w x"
  by (induction cs arbitrary: w) (auto simp: writeUnits_simps writeFile_def)

lemma writeUnits_unit:
  "c \<in> set cs \<Longrightarrow>
     \<exists>c' \<in> set cs. key c' = key c \<and> files (writeUnits p cs w) (cardUnitFile p (key c)) = Some (cardLogicProgram c')"
proof (induction cs arbitrary: w c)
  case Nil
  then show ?case by simp
next
  case (Cons a cs)
  show ?case
  proof (cases "\<exists>c'' \<in> set cs. key c'' = key c")
    case True
    then obtain c'' where c'': "c'' \<in> set cs" "key c'' = key c" by blast
    from Cons.IH [OF c''(1), of "writeFile (cardUnitFile p (key a)) (cardLogicProgram a) w"] c''(2)
    show ?thesis by (auto simp: writeUnits_simps)
  next
    case False
    with Cons.prems have ca: "c = a" by auto
    from False have "cardUnitFile p (key c) \<notin> (\<lambda>c. cardUnitFile p (key c)) ` set cs"
      by (auto simp: cardUnitFile_inj)
    then have "files (writeUnits p (a # cs) w) (cardUnitFile p (key c))
        = files (writeFile (cardUnitFile p (key a)) (cardLogicProgram a) w) (cardUnitFile p (key c))"
      by (simp add: writeUnits_simps writeUnits_other)
    with ca show ?thesis by (auto simp: writeFile_def)
  qed
qed

lemma generateCardTree_alt:
  "generateCardTree p pc w =
     writeFile (cardTreeFile p)
       (concat (map (\<lambda>c. includeRow (key c)) (case pc of Some c \<Rightarrow> cards p | None \<Rightarrow> getCards p pc)))
       (writeUnits p (getCards p pc) w)"
  by (simp add: generateCardTree_def writeUnits_def cardUnitFile_def cardTreeFile_def foldl_rows Let_def)

lemma applyWrites_simps:
  "applyWrites [] w = w"
  "applyWrites (fc # ws) w = applyWrites ws (writeFile (fst fc) (snd fc) w)"
  "applyWrites (ws @ ws') w = applyWrites ws' (applyWrites ws w)"
  by (simp_all add: applyWrites_def)

lemma applyWrites_fields:
  "project (applyWrites ws w) = project w"
  "dirs (applyWrites ws w) = dirs w"
  "console (applyWrites ws w) = console w"
  by (induction ws arbitrary: w) (simp_all add: applyWrites_simps writeFile_def)

lemma applyWrites_files:
  "files (applyWrites ws w) x = (case map_of (rev ws) x of Some c \<Rightarrow> Some c | None \<Rightarrow> files w x)"
proof (induction ws arbitrary: w)
  case Nil
  then show ?case by (simp add: applyWrites_simps)
next
  case (Cons fc ws)
  show ?case
    by (cases fc) (simp add: applyWrites_simps Cons.IH writeFile_def map_add_def split: option.splits)
qed

lemma applyWrites_idem: "applyWrites ws (applyWrites ws w) = applyWrites ws w"
proof (rule world.equality)
  show "files (applyWrites ws (applyWrites ws w)) = files (applyWrites ws w)"
    by (rule ext) (simp add: applyWrites_files split: option.splits)
qed (simp_all add: applyWrites_fields)

lemma writeFile_update:
  "writeFile f c (w\<lparr>project := q\<rparr>) = (writeFile f c w)\<lparr>project := q\<rparr>"
  "writeFile f c (w\<lparr>dirs := d\<rparr>) = (writeFile f c w)\<lparr>dirs := d\<rparr>"
  by (simp_all add: writeFile_def)

lemma applyWrites_update:
  "applyWrites ws (w\<lparr>project := q\<rparr>) = (applyWrites ws w)\<lparr>project := q\<rparr>"
  "applyWrites ws (w\<lparr>dirs := d\<rparr>) = (applyWrites ws w)\<lparr>dirs := d\<rparr>"
  by (induction ws arbitrary: w) (simp_all add: applyWrites_simps writeFile_update)

lemma writeUnits_applyWrites: "writeUnits p cs w = applyWrites (unitWrites p cs) w"
  by (induction cs arbitrary: w) (simp_all add: writeUnits_simps applyWrites_simps unitWrites_def)

lemma generateUnits_full:
  "generateUnits p None w = applyWrites (fullScript p) (mkdirCards (calculationFolder p) w)"
  by (simp add: generateUnits_def generateBase_def generateModules_def generateMainLogicFile_def
      generateCardTree_alt getCards_def writeUnits_applyWrites fullScript_def applyWrites_simps)

lemma mkdirCards_applyWrites:
  "mkdirCards f (applyWrites ws w) = applyWrites ws (mkdirCards f w)"
  by (simp add: mkdirCards_def applyWrites_update applyWrites_fields)

lemma mkdirCards_idem: "mkdirCards f (mkdirCards f w) = mkdirCards f w"
  by (simp add: mkdirCards_def insert_commute)

lemma generateUnits_full_idem:
  "generateUnits p None (generateUnits p None w) = generateUnits p None w"
  by (simp add: generateUnits_full mkdirCards_applyWrites mkdirCards_idem applyWrites_idem)

lemma generateUnits_project:
  "generateUnits p None (w\<lparr>project := q\<rparr>) = (generateUnits p None w)\<lparr>project := q\<rparr>"
  by (simp add: generateUnits_full applyWrites_update mkdirCards_def)

lemma generate_unscoped:
  "ko = None \<or> ko = Some [] \<Longrightarrow>
   generate e pp ko w = (ok, (generateUnits (newProject e pp) None w)\<lparr>project := Some (newProject e pp)\<rparr>)"
  by (auto simp: generate_def Let_def generateUnits_project)

lemma writeFile_files: "files (writeFile f c w) x = (if x = f then Some c else files w x)"
  by (simp add: writeFile_def)

lemma writeFile_fields:
  "project (writeFile f c w) = project w"
  "dirs (writeFile f c w) = dirs w"
  "console (writeFile f c w) = console w"
  by (simp_all add: writeFile_def)

lemma mkdirCards_fields:
  "project (mkdirCards f w) = project w"
  "files (mkdirCards f w) = files w"
  "console (mkdirCards f w) = console w"
  by (simp_all add: mkdirCards_def)

lemma generateCardTree_fields:
  "project (generateCardTree p pc w) = project w"
  "dirs (generateCardTree p pc w) = dirs w"
  "console (generateCardTree p pc w) = console w"
  by (simp_all add: generateCardTree_alt writeFile_fields writeUnits_fields)

lemma generateCardTree_aggregator:
  "files (generateCardTree p pc w) (cardTreeFile p) =
     Some (concat (map (\<lambda>c. includeRow (key c))
        (case pc of Some c \<Rightarrow> cards p | None \<Rightarrow> getCards p pc)))"
  by (simp add: generateCardTree_alt writeFile_files)

lemma generateCardTree_other:
  assumes "x \<noteq> cardTreeFile p" and "x \<notin> (\<lambda>c. cardUnitFile p (key c)) ` set (getCards p pc)"
  shows "files (generateCardTree p pc w) x = files w x"
  using assms by (simp add: generateCardTree_alt writeFile_files writeUnits_other)

lemma generateUnits_scoped:
  "generateUnits p (Some c) w = generateCardTree p (Some c) (mkdirCards (calculationFolder p) w)"
  by (simp add: generateUnits_def generateBase_def generateModules_def generateMainLogicFile_def)

lemma generateUnits_alt:
  "generateUnits p None w =
     writeFile (join (calculationFolder p) mainLogicFileName) mainLogicFile
       (writeFile (join (calculationFolder p) modulesFileName) (foldl moduleRows [] (calculations p))
         (generateCardTree p None
           (writeFile (join (calculationFolder p) baseLogicFileName) commonDefinitions
             (mkdirCards (calculationFolder p) w))))"
  by (simp add: generateUnits_def generateBase_def generateModules_def generateMainLogicFile_def)

lemma generateUnits_aggregator:
  "files (generateUnits p pc w) (cardTreeFile p) =
     Some (concat (map (\<lambda>c. includeRow (key c)) (cards p)))"
proof (cases pc)
  case None
  have "files (generateUnits p None w) (cardTreeFile p) =
      files (generateCardTree p None
           (writeFile (join (calculationFolder p) baseLogicFileName) commonDefinitions
             (mkdirCards (calculationFolder p) w))) (cardTreeFile p)"
    using fixed_distinct [of "calculationFolder p"]
    by (simp add: generateUnits_alt writeFile_files cardTreeFile_def)
  with None show ?thesis by (simp add: generateCardTree_aggregator getCards_def)
next
  case (Some c)
  then show ?thesis by (simp add: generateUnits_scoped generateCardTree_aggregator)
qed

lemma generate_scoped_found:
  assumes "k \<noteq> []" and "findSpecificCard (newProject e pp) k noDetails = Some c"
  shows "generate e pp (Some k) w =
           (ok, generateUnits (newProject e pp) (Some c) (w\<lparr>project := Some (newProject e pp)\<rparr>))"
  using assms by (simp add: generate_def Let_def)

lemma generate_scoped_missing:
  assumes "k \<noteq> []" and "findSpecificCard (newProject e pp) k noDetails = None"
  shows "generate e pp (Some k) w = (notFound k, w\<lparr>project := Some (newProject e pp)\<rparr>)"
  using assms by (simp add: generate_def Let_def)

lemma generate_unscoped':
  assumes "ko = None \<or> ko = Some []"
  shows "generate e pp ko w =
           (ok, generateUnits (newProject e pp) None (w\<lparr>project := Some (newProject e pp)\<rparr>))"
  using assms by (auto simp: generate_def Let_def)

lemma notFound_ne_ok: "notFound k \<noteq> ok"
  by (simp add: notFound_def ok_def)

lemma generate_ok_units:
  assumes "fst (generate e pp ko w) = ok"
  shows "\<exists>pc. snd (generate e pp ko w) =
           generateUnits (newProject e pp) pc (w\<lparr>project := Some (newProject e pp)\<rparr>)"
proof (cases "ko = None \<or> ko = Some []")
  case True
  then have "snd (generate e pp ko w) =
      generateUnits (newProject e pp) None (w\<lparr>project := Some (newProject e pp)\<rparr>)"
    by (simp add: generate_unscoped')
  then show ?thesis by blast
next
  case False
  then obtain k where k: "ko = Some k" "k \<noteq> []" by (cases ko) auto
  show ?thesis
  proof (cases "findSpecificCard (newProject e pp) k noDetails")
    case None
    with k assms show ?thesis by (simp add: generate_scoped_missing notFound_ne_ok)
  next
    case (Some c)
    with k have "snd (generate e pp ko w) =
        generateUnits (newProject e pp) (Some c) (w\<lparr>project := Some (newProject e pp)\<rparr>)"
      by (simp add: generate_scoped_found)
    then show ?thesis by blast
  qed
qed

lemma distinct_rows: "distinct ks \<Longrightarrow> distinct (map includeRow ks)"
  by (simp add: distinct_map inj_on_def includeRow_inj)

lemma fixed_not_unit:
  assumes "x = join (calculationFolder p) baseLogicFileName \<or>
           x = join (calculationFolder p) modulesFileName \<or>
           x = join (calculationFolder p) mainLogicFileName \<or>
           x = join (calculationFolder p) cardTreeFileName"
  shows "x \<noteq> cardUnitFile p k"
  using assms unit_ne_fixed [of p k] by auto

lemma generateUnits_scoped_fixed:
  assumes "x = join (calculationFolder p) baseLogicFileName \<or>
           x = join (calculationFolder p) modulesFileName \<or>
           x = join (calculationFolder p) mainLogicFileName"
  shows "files (generateUnits p (Some c) w) x = files w x"
proof -
  have "x \<noteq> cardTreeFile p"
    using assms fixed_distinct [of "calculationFolder p"] by (auto simp: cardTreeFile_def)
  moreover have "x \<notin> (\<lambda>c. cardUnitFile p (key c)) ` set cs" for cs
    using assms fixed_not_unit [of x p] by auto
  ultimately show ?thesis
    by (simp add: generateUnits_scoped generateCardTree_other mkdirCards_fields)
qed

lemma generateUnits_full_fixed:
  "files (generateUnits p None w) (join (calculationFolder p) baseLogicFileName) = Some commonDefinitions"
  "files (generateUnits p None w) (join (calculationFolder p) modulesFileName) =
     Some (foldl moduleRows [] (calculations p))"
  "files (generateUnits p None w) (join (calculationFolder p) mainLogicFileName) = Some mainLogicFile"
proof -
  have b: "join (calculationFolder p) baseLogicFileName \<notin> (\<lambda>c. cardUnitFile p (key c)) ` set cs" for cs
    using fixed_not_unit [of "join (calculationFolder p) baseLogicFileName" p] by auto
  show "files (generateUnits p None w) (join (calculationFolder p) baseLogicFileName) = Some commonDefinitions"
    using fixed_distinct [of "calculationFolder p"] b
    by (simp add: generateUnits_alt writeFile_files generateCardTree_other cardTreeFile_def)
  show "files (generateUnits p None w) (join (calculationFolder p) modulesFileName) =
     Some (foldl moduleRows [] (calculations p))"
    using fixed_distinct [of "calculationFolder p"]
    by (simp add: generateUnits_alt writeFile_files)
  show "files (generateUnits p None w) (join (calculationFolder p) mainLogicFileName) = Some mainLogicFile"
    by (simp add: generateUnits_alt writeFile_files)
qed

section \<open>The loops of the incremental operations\<close>

lemma setCalculateProject_bound: "project w = Some p \<Longrightarrow> setCalculateProject e c w = Inr w"
  by (simp add: setCalculateProject_def)

lemma setCalculateProject_Inr:
  assumes "setCalculateProject e c w = Inr w1"
  shows "files w1 = files w" "dirs w1 = dirs w" "console w1 = console w" "project w1 \<noteq> None"
  using assms
  by (auto simp: setCalculateProject_def split: option.splits if_splits)

lemma calculationsForTreeExist_cong:
  "files w1 = files w \<Longrightarrow> dirs w1 = dirs w \<Longrightarrow>
   calculationsForTreeExist p w1 = calculationsForTreeExist p w"
  by (simp add: calculationsForTreeExist_def pathExists_def)

lemma deleteStep_cardUnitFile:
  "deleteStep p st c =
     (if pathExists (fst st) (cardUnitFile p (key c))
      then deleteFile (cardUnitFile p (key c)) (fst st) else fst st,
      removeFirst (includeRow (key c)) (snd st))"
  by (simp add: deleteStep_def cardUnitFile_def join_def Let_def)

lemma deleteStep_fields:
  "project (fst (deleteStep p st c)) = project (fst st)"
  "dirs (fst (deleteStep p st c)) = dirs (fst st)"
  "console (fst (deleteStep p st c)) = console (fst st)"
  by (simp_all add: deleteStep_cardUnitFile deleteFile_def)

lemma deleteStep_files:
  "files (fst (deleteStep p st c)) x =
     (if x = cardUnitFile p (key c) then None else files (fst st) x)"
  by (auto simp: deleteStep_cardUnitFile deleteFile_def pathExists_def)

lemma deleteLoop_snd:
  "snd (foldl (deleteStep p) st cs) = removeRows (snd st) cs"
  by (induction cs arbitrary: st) (simp_all add: removeRows_def deleteStep_cardUnitFile)

lemma deleteLoop_fields:
  "project (fst (foldl (deleteStep p) st cs)) = project (fst st)"
  "dirs (fst (foldl (deleteStep p) st cs)) = dirs (fst st)"
  "console (fst (foldl (deleteStep p) st cs)) = console (fst st)"
  by (induction cs arbitrary: st) (simp_all add: deleteStep_fields)

lemma deleteLoop_files:
  "files (fst (foldl (deleteStep p) st cs)) x =
     (if x \<in> unitPaths p cs then None else files (fst st) x)"
  by (induction cs arbitrary: st) (auto simp: deleteStep_files unitPaths_def)

lemma deleteLoop_noop:
  assumes "\<forall>c \<in> set cs. files (fst st) (cardUnitFile p (key c)) = None"
  shows "fst (foldl (deleteStep p) st cs) = fst st"
proof (rule world.equality)
  show "files (fst (foldl (deleteStep p) st cs)) = files (fst st)"
    using assms by (auto simp: deleteLoop_files unitPaths_def fun_eq_iff)
qed (simp_all add: deleteLoop_fields)

lemma newCardsLoop_simps:
  "newCardsLoop p [] w = w"
  "newCardsLoop p (c # cs) w = newCardsLoop p cs (generateCardTree p (Some c) w)"
  "newCardsLoop p (cs @ [c]) w = generateCardTree p (Some c) (newCardsLoop p cs w)"
  by (simp_all add: newCardsLoop_def)

lemma newCardsLoop_fields:
  "project (newCardsLoop p cs w) = project w"
  "dirs (newCardsLoop p cs w) = dirs w"
  "console (newCardsLoop p cs w) = console w"
  by (induction cs arbitrary: w) (simp_all add: newCardsLoop_simps generateCardTree_fields)

lemma newCardsLoop_other:
  assumes "x \<noteq> cardTreeFile p" and "\<forall>c \<in> set cs. x \<notin> unitPaths p (getCards p (Some c))"
  shows "files (newCardsLoop p cs w) x = files w x"
  using assms
  by (induction cs arbitrary: w) (simp_all add: newCardsLoop_simps generateCardTree_other unitPaths_def)

lemma newCardsLoop_aggregator:
  assumes "cs \<noteq> []"
  shows "files (newCardsLoop p cs w) (cardTreeFile p) =
           Some (concat (map includeRow (map key (cards p))))"
proof -
  from assms obtain cs' c where "cs = cs' @ [c]" by (metis rev_exhaust)
  then show ?thesis
    by (simp add: newCardsLoop_simps generateCardTree_aggregator comp_def)
qed

lemma generateCardTree_unit_kept_in:
  assumes "files w (cardUnitFile p k) = Some (cardLogicProgram c'')" and "key c'' = k" and "c'' \<in> A"
  shows "\<exists>d \<in> A \<union> set (getCards p pc). key d = k \<and>
           files (generateCardTree p pc w) (cardUnitFile p k) = Some (cardLogicProgram d)"
proof (cases "cardUnitFile p k \<in> (\<lambda>c. cardUnitFile p (key c)) ` set (getCards p pc)")
  case True
  then obtain c where c: "c \<in> set (getCards p pc)" "key c = k"
    by (auto simp: cardUnitFile_inj)
  from writeUnits_unit [OF c(1), of p w] c(2)
  obtain c' where "c' \<in> set (getCards p pc)" "key c' = k"
    "files (writeUnits p (getCards p pc) w) (cardUnitFile p k) = Some (cardLogicProgram c')"
    by auto
  then show ?thesis
    using unit_ne_fixed(2) [of p k]
    by (auto simp: generateCardTree_alt writeFile_files cardTreeFile_def)
next
  case False
  then have "files (generateCardTree p pc w) (cardUnitFile p k) = files w (cardUnitFile p k)"
    using unit_ne_fixed(2) [of p k]
    by (simp add: generateCardTree_other cardTreeFile_def)
  with assms show ?thesis by auto
qed

lemma generateCardTree_unit_in:
  assumes "c' \<in> set (getCards p pc)"
  shows "\<exists>d \<in> set (getCards p pc). key d = key c' \<and>
           files (generateCardTree p pc w) (cardUnitFile p (key c')) = Some (cardLogicProgram d)"
proof -
  from writeUnits_unit [OF assms, of p w]
  obtain d where "d \<in> set (getCards p pc)" "key d = key c'"
    "files (writeUnits p (getCards p pc) w) (cardUnitFile p (key c')) = Some (cardLogicProgram d)"
    by auto
  then show ?thesis
    using unit_ne_fixed(2) [of p "key c'"]
    by (auto simp: generateCardTree_alt writeFile_files cardTreeFile_def)
qed

lemma newCardsLoop_unit_kept_in:
  assumes "files w (cardUnitFile p k) = Some (cardLogicProgram c'')" and "key c'' = k" and "c'' \<in> A"
  shows "\<exists>d \<in> A \<union> subtreeCards p cs. key d = k \<and>
           files (newCardsLoop p cs w) (cardUnitFile p k) = Some (cardLogicProgram d)"
  using assms
proof (induction cs arbitrary: w c'' A)
  case Nil
  then show ?case by (auto simp: newCardsLoop_simps)
next
  case (Cons c cs)
  from generateCardTree_unit_kept_in [OF Cons.prems, of "Some c"]
  obtain d where d: "d \<in> A \<union> set (getCards p (Some c))" "key d = k"
    "files (generateCardTree p (Some c) w) (cardUnitFile p k) = Some (cardLogicProgram d)"
    by auto
  from Cons.IH [OF d(3) d(2) d(1)]
  show ?case by (auto simp: newCardsLoop_simps subtreeCards_def)
qed

lemma newCardsLoop_unit_in:
  assumes "c \<in> set cs" and "c' \<in> set (getCards p (Some c))"
  shows "\<exists>d \<in> subtreeCards p cs. key d = key c' \<and>
           files (newCardsLoop p cs w) (cardUnitFile p (key c')) = Some (cardLogicProgram d)"
  using assms(1)
proof (induction cs arbitrary: w)
  case Nil
  then show ?case by simp
next
  case (Cons a cs)
  show ?case
  proof (cases "a = c")
    case True
    from generateCardTree_unit_in [OF assms(2), of w]
    obtain d where d: "d \<in> set (getCards p (Some c))" "key d = key c'"
      "files (generateCardTree p (Some c) w) (cardUnitFile p (key c')) = Some (cardLogicProgram d)"
      by auto
    from newCardsLoop_unit_kept_in [OF d(3) d(2) d(1), of cs] True
    show ?thesis by (auto simp: newCardsLoop_simps subtreeCards_def)
  next
    case False
    with Cons.prems have "c \<in> set cs" by simp
    from Cons.IH [OF this, of "generateCardTree p (Some a) w"]
    show ?thesis by (auto simp: newCardsLoop_simps subtreeCards_def)
  qed
qed

lemma handleNewCards_resolved:
  assumes "setCalculateProject e (case cs of [] \<Rightarrow> None | c # rest \<Rightarrow> Some c) w = Inr w1"
      and "project w1 = Some p"
  shows "handleNewCards e (Some cs) w =
           Inr (if calculationsForTreeExist p w then newCardsLoop p cs w1 else w1)"
  using assms calculationsForTreeExist_cong [OF setCalculateProject_Inr(1,2) [OF assms(1)], of p]
  by (simp add: handleNewCards_def newCardsLoop_def)

lemma handleDeleteCard_resolved:
  assumes "setCalculateProject e (Some d) w = Inr w1"
      and "project w1 = Some p"
  shows "handleDeleteCard e (Some d) w =
           (if calculationsForTreeExist p w then
              (case files w (cardTreeFile p) of
                 None \<Rightarrow> Inl (ReadError (cardTreeFile p))
               | Some content \<Rightarrow>
                   Inr (writeFile (cardTreeFile p) (removeRows content (getCards p (Some d)))
                          (fst (foldl (deleteStep p) (w1, content) (getCards p (Some d))))))
            else Inr (fst (foldl (deleteStep p) (w1, []) (getCards p (Some d)))))"
  using assms calculationsForTreeExist_cong [OF setCalculateProject_Inr(1,2) [OF assms(1)], of p]
    setCalculateProject_Inr(1) [OF assms(1)]
  by (simp add: handleDeleteCard_def Let_def cardTreeFile_def deleteLoop_snd split: option.splits)

lemma removeFirst_prefix: "pat \<noteq> [] \<Longrightarrow> removeFirst pat (pat @ rest) = rest"
  by (cases pat) simp_all

lemma removeFirst_skip:
  "(\<forall>i < length A. \<not> prefix pat (drop i (A @ rest))) \<Longrightarrow>
   removeFirst pat (A @ rest) = A @ removeFirst pat rest"
proof (induction A)
  case Nil
  then show ?case by simp
next
  case (Cons a A)
  from Cons.prems have "\<not> prefix pat (drop 0 ((a # A) @ rest))" by blast
  then have head: "\<not> prefix pat (a # A @ rest)" by simp
  have "\<forall>i < length A. \<not> prefix pat (drop i (A @ rest))"
  proof (intro allI impI)
    fix i assume "i < length A"
    then have "Suc i < length (a # A)" by simp
    with Cons.prems have "\<not> prefix pat (drop (Suc i) ((a # A) @ rest))" by blast
    then show "\<not> prefix pat (drop i (A @ rest))" by simp
  qed
  with Cons.IH have "removeFirst pat (A @ rest) = A @ removeFirst pat rest" by blast
  with head show ?case by simp
qed

lemma takeWhile_line:
  assumes "n \<notin> set a"
  shows "takeWhile (\<lambda>c. c \<noteq> n) (a @ n # zs) = a"
  using assms by (induction a) auto

lemma line_prefix_eq:
  assumes "prefix (k @ s0 @ [n]) (k' @ s0 @ n # rest)"
      and "n \<notin> set k" "n \<notin> set k'" "n \<notin> set s0"
  shows "k = k'"
proof -
  from assms(1) obtain zs where eq: "k' @ s0 @ n # rest = (k @ s0 @ [n]) @ zs"
    by (auto simp: prefix_def)
  have "takeWhile (\<lambda>c. c \<noteq> n) ((k' @ s0) @ n # rest) = k' @ s0"
    using assms(3,4) by (intro takeWhile_line) simp
  moreover have "takeWhile (\<lambda>c. c \<noteq> n) ((k @ s0) @ n # zs) = k @ s0"
    using assms(2,4) by (intro takeWhile_line) simp
  ultimately have "k' @ s0 = k @ s0" using eq by simp
  then show ?thesis by simp
qed

lemma includeRow_match_start:
  assumes "prefix (includeRow k) (includeRow k' @ rest)" and "cleanKey k" and "cleanKey k'"
  shows "k = k'"
proof -
  have "prefix (k @ ''.lp\".'' @ [CHR 0x0A]) (k' @ ''.lp\".'' @ CHR 0x0A # rest)"
    using assms(1) by (simp add: includeRow_def)
  moreover have "CHR 0x0A \<notin> set k" "CHR 0x0A \<notin> set k'"
    using assms(2,3) by (simp_all add: cleanKey_def)
  moreover have "CHR 0x0A \<notin> set ''.lp\".''" by simp
  ultimately show ?thesis by (rule line_prefix_eq)
qed

lemma includeRow_no_hash_inside:
  assumes "cleanKey k'" and "0 < i" and "i < length (includeRow k')"
  shows "(includeRow k') ! i \<noteq> CHR ''#''"
proof -
  have "includeRow k' = CHR ''#'' # tl (includeRow k')" by (simp add: includeRow_def)
  then have "(includeRow k') ! i = tl (includeRow k') ! (i - 1)"
    using assms(2) by (metis nth_Cons_pos)
  moreover have "i - 1 < length (tl (includeRow k'))" using assms(2,3) by simp
  moreover have "CHR ''#'' \<notin> set (tl (includeRow k'))"
    using assms(1) by (simp add: includeRow_def cleanKey_def)
  ultimately show ?thesis by (metis nth_mem)
qed

lemma includeRow_no_match_inside:
  assumes "k \<noteq> k'" and "cleanKey k" and "cleanKey k'"
  shows "\<forall>i < length (includeRow k'). \<not> prefix (includeRow k) (drop i (includeRow k' @ rest))"
proof (intro allI impI)
  fix i assume i: "i < length (includeRow k')"
  show "\<not> prefix (includeRow k) (drop i (includeRow k' @ rest))"
  proof (cases "i = 0")
    case True
    with assms includeRow_match_start [of k k' rest] show ?thesis by auto
  next
    case False
    have "drop i (includeRow k' @ rest) = (includeRow k' ! i) # drop (Suc i) (includeRow k' @ rest)"
      using i by (metis Cons_nth_drop_Suc length_append nth_append trans_less_add1)
    moreover have "includeRow k = CHR ''#'' # tl (includeRow k)" by (simp add: includeRow_def)
    ultimately show ?thesis
      using includeRow_no_hash_inside [OF assms(3) _ i] False
      by (metis Cons_prefix_Cons neq0_conv)
  qed
qed

lemma removeFirst_rows:
  assumes "cleanKey k" and "\<forall>k' \<in> set ks. cleanKey k'"
  shows "removeFirst (includeRow k) (rows ks) = rows (remove1 k ks)"
  using assms(2)
proof (induction ks)
  case Nil
  then show ?case by (simp add: rows_def)
next
  case (Cons k' ks)
  show ?case
  proof (cases "k = k'")
    case True
    have "includeRow k \<noteq> []" by (simp add: includeRow_def)
    then have "removeFirst (includeRow k) (includeRow k @ rows ks) = rows ks"
      by (rule removeFirst_prefix)
    with True show ?thesis by (simp add: rows_def)
  next
    case False
    from Cons.prems have ck': "cleanKey k'" and rest: "\<forall>k' \<in> set ks. cleanKey k'" by simp_all
    have "removeFirst (includeRow k) (includeRow k' @ rows ks) =
        includeRow k' @ removeFirst (includeRow k) (rows ks)"
      by (rule removeFirst_skip) (rule includeRow_no_match_inside [OF False assms(1) ck'])
    with False Cons.IH [OF rest] show ?thesis by (simp add: rows_def)
  qed
qed

lemma removeRows_rows:
  assumes "\<forall>c \<in> set cs. cleanKey (key c)" and "\<forall>k' \<in> set ks. cleanKey k'"
  shows "removeRows (rows ks) cs = rows (foldl (\<lambda>ks' c. remove1 (key c) ks') ks cs)"
  using assms
proof (induction cs arbitrary: ks)
  case Nil
  then show ?case by (simp add: removeRows_def)
next
  case (Cons c cs)
  have step: "removeFirst (includeRow (key c)) (rows ks) = rows (remove1 (key c) ks)"
    using Cons.prems by (simp add: removeFirst_rows)
  have "\<forall>k' \<in> set (remove1 (key c) ks). cleanKey k'"
    using Cons.prems(2) by (meson notin_set_remove1)
  with Cons.IH [of "remove1 (key c) ks"] Cons.prems(1)
  have "removeRows (rows (remove1 (key c) ks)) cs =
      rows (foldl (\<lambda>ks' c. remove1 (key c) ks') (remove1 (key c) ks) cs)"
    by simp
  with step show ?case by (simp add: removeRows_def)
qed

lemma remove1_filter_distinct:
  "distinct ks \<Longrightarrow> remove1 k ks = filter (\<lambda>k'. k' \<noteq> k) ks"
  by (simp add: distinct_remove1_removeAll removeAll_filter_not_eq) (metis)

lemma foldl_remove1_filter:
  "distinct ks \<Longrightarrow>
   foldl (\<lambda>ks' c. remove1 (key c) ks') ks cs = filter (\<lambda>k. k \<notin> key ` set cs) ks"
proof (induction cs arbitrary: ks)
  case Nil
  then show ?case by simp
next
  case (Cons c cs)
  have d: "distinct (remove1 (key c) ks)" using Cons.prems by simp
  have "foldl (\<lambda>ks' c. remove1 (key c) ks') (remove1 (key c) ks) cs =
      filter (\<lambda>k. k \<notin> key ` set cs) (remove1 (key c) ks)"
    using Cons.IH [OF d] .
  also have "\<dots> = filter (\<lambda>k. k \<notin> key ` set cs) (filter (\<lambda>k'. k' \<noteq> key c) ks)"
    using Cons.prems by (simp add: remove1_filter_distinct)
  also have "\<dots> = filter (\<lambda>k. k \<notin> key ` set (c # cs)) ks"
    by (auto intro: filter_cong)
  finally show ?case by simp
qed

lemma in_folder:
  "prefix (calculationFolder p @ [sep]) (cardUnitFile p k)"
  "prefix (calculationFolder p @ [sep]) (join (calculationFolder p) n)"
  "prefix (calculationFolder p @ [sep]) (cardTreeFile p)"
  by (simp_all add: cardUnitFile_def join_def cardTreeFile_def)

lemma outside_not_unit:
  assumes "\<not> prefix (calculationFolder p @ [sep]) x"
  shows "x \<notin> unitPaths p cs" "x \<noteq> cardTreeFile p" "x \<noteq> join (calculationFolder p) n"
  using assms in_folder [of p] by (auto simp: unitPaths_def)

lemma generateCardTree_outside:
  assumes "\<not> prefix (calculationFolder p @ [sep]) x"
  shows "files (generateCardTree p pc w) x = files w x"
  using outside_not_unit [OF assms] by (simp add: generateCardTree_other unitPaths_def)

lemma generateUnits_outside:
  assumes "\<not> prefix (calculationFolder p @ [sep]) x"
  shows "files (generateUnits p pc w) x = files w x"
proof (cases pc)
  case None
  then show ?thesis
    using outside_not_unit(3) [OF assms]
    by (simp add: generateUnits_alt writeFile_files generateCardTree_outside [OF assms] mkdirCards_fields)
next
  case (Some c)
  then show ?thesis
    by (simp add: generateUnits_scoped generateCardTree_outside [OF assms] mkdirCards_fields)
qed

lemma generate_outside:
  assumes "\<not> prefix (calculationFolder (newProject e pp) @ [sep]) x"
  shows "files (snd (generate e pp ko w)) x = files w x"
proof (cases "ko = None \<or> ko = Some []")
  case True
  then show ?thesis by (simp add: generate_unscoped' generateUnits_outside [OF assms])
next
  case False
  then obtain k where k: "ko = Some k" "k \<noteq> []" by (cases ko) auto
  show ?thesis
  proof (cases "findSpecificCard (newProject e pp) k noDetails")
    case None
    with k show ?thesis by (simp add: generate_scoped_missing)
  next
    case (Some c)
    with k show ?thesis by (simp add: generate_scoped_found generateUnits_outside [OF assms])
  qed
qed

lemma generate_project: "project (snd (generate e pp ko w)) = Some (newProject e pp)"
proof (cases "ko = None \<or> ko = Some []")
  case True
  then show ?thesis by (simp add: generate_unscoped)
next
  case False
  then obtain k where k: "ko = Some k" "k \<noteq> []" by (cases ko) auto
  show ?thesis
  proof (cases "findSpecificCard (newProject e pp) k noDetails")
    case None
    with k show ?thesis by (simp add: generate_scoped_missing)
  next
    case (Some c)
    with k show ?thesis
      by (simp add: generate_scoped_found generateUnits_scoped generateCardTree_fields mkdirCards_fields)
  qed
qed

lemma run_project: "project (snd (run e pp k w)) = Some (newProject e pp)"
  by (simp add: run_def Let_def split: option.splits)

lemma newCardsLoop_outside:
  assumes "\<not> prefix (calculationFolder p @ [sep]) x"
  shows "files (newCardsLoop p cs w) x = files w x"
  using outside_not_unit [OF assms] by (simp add: newCardsLoop_other)

lemma deleteLoop_outside:
  assumes "\<not> prefix (calculationFolder p @ [sep]) x"
  shows "files (fst (foldl (deleteStep p) st cs)) x = files (fst st) x"
  using outside_not_unit [OF assms] by (simp add: deleteLoop_files)

lemma generate_env: "generate (e\<lparr>findProjectRoot := g\<rparr>) pp ko w = generate e pp ko w"
  by (simp add: generate_def)

lemma notInProject_ne:
  "notInProject c \<noteq> TypeError" "notInProject c \<noteq> ReadError s"
  "TypeError \<noteq> notInProject c" "ReadError s \<noteq> notInProject c"
  by (simp_all add: notInProject_def)

section \<open>Facts about the examples\<close>

lemma ex_resolve:
  "path c = ''/proj/cardroot/'' @ rest \<Longrightarrow> project w = None \<Longrightarrow>
   setCalculateProject (exEnv r) (Some c) w = Inr (w\<lparr>project := Some (exProject ''/proj'')\<rparr>)"
  by (simp add: setCalculateProject_def exEnv_def)

lemma ex_paths:
  "cardTreeFile (exProject ''/proj'') = ''/proj/.calc/cardtree.lp''"
  "calculationFolder (exProject ''/proj'') = ''/proj/.calc''"
  "cardUnitFile (exProject ''/proj'') ''root'' = ''/proj/.calc/cards/root.lp''"
  "cardUnitFile (exProject ''/proj'') ''childA'' = ''/proj/.calc/cards/childA.lp''"
  "cardUnitFile (exProject ''/proj'') ''childB'' = ''/proj/.calc/cards/childB.lp''"
  by (simp_all add: cardTreeFile_def exProject_def join_def sep_def cardTreeFileName_def cardUnitFile_def)

lemma ex_exist:
  "calculationsForTreeExist (exProject ''/proj'') exEmptyCorpus"
  "calculationsForTreeExist (exProject ''/proj'') exCorpus"
  "\<not> calculationsForTreeExist (exProject ''/proj'') exOrphan"
  "\<not> calculationsForTreeExist (exProject ''/proj'') exWorld"
  using ex_paths(1,2)
  by (simp_all add: calculationsForTreeExist_def pathExists_def cardTreeFile_def
      exEmptyCorpus_def exCorpus_def exOrphan_def exWorld_def)

lemma ex_subtree:
  "getCards (exProject ''/proj'') (Some exChildA) = [exChildA]"
  "getCards (exProject ''/proj'') (Some exRoot) =
     [Card ''root'' ''/proj/cardroot/root'' (Some [(''cardtype'', Str ''page'')]) None, exChildA, exChildB]"
  by (simp_all add: getCards_def exProject_def exFind_def exChildA_def exChildB_def exRoot_def
      flattenCardArray_def)

lemma ex_key:
  "key exChildA = ''childA''" "key exChildB = ''childB''" "key exRoot = ''root''"
  by (simp_all add: exChildA_def exChildB_def exRoot_def)

lemma ex_clean: "cleanKey ''root''" "cleanKey ''childA''" "cleanKey ''childB''"
  by (simp_all add: cleanKey_def)

section \<open>Generation\<close>

lemma exFind_childA: "findSpecificCard (exProject pp) ''childA'' d = Some exChildA"
  by (simp add: exProject_def exFind_def)

lemma exFind_root: "findSpecificCard (exProject pp) ''root'' d = Some exRoot"
  by (simp add: exProject_def exFind_def)

lemma ex_generate_childA:
  "generate (exEnv r) ''/proj'' (Some ''childA'') w =
     (ok, generateUnits (exProject ''/proj'') (Some exChildA)
            (w\<lparr>project := Some (exProject ''/proj'')\<rparr>))"
  by (simp add: generate_scoped_found exEnv_def exFind_childA)

lemma ex_keys: "map key (cards (exProject pp)) = [''root'', ''childA'', ''childB'']"
  by (simp add: exProject_def exRoot_def exChildA_def exChildB_def)

lemma ex_rows:
  "concat (map (\<lambda>c. includeRow (key c)) (cards (exProject pp))) =
     includeRow ''root'' @ includeRow ''childA'' @ includeRow ''childB''"
  by (simp add: exProject_def exRoot_def exChildA_def exChildB_def)

text \<open>
  Claim C3, as the code has it. After every generation that succeeds, scoped to a card
  or not, the cardtree aggregator consists of exactly one include row per card of the
  project's card list, in the order of that list: the rows of all cards known to the
  project, not only those of the scoped subtree. Hence it has no duplicate rows when the
  known cards have distinct keys, and no row for a card that is no longer known.
\<close>

theorem generate_aggregator:
  assumes "fst (generate e pp ko w) = ok"
  shows "files (snd (generate e pp ko w)) (join (calculationFolder (newProject e pp)) cardTreeFileName) =
           Some (concat (map includeRow (map key (cards (newProject e pp))))) \<and>
         (distinct (map key (cards (newProject e pp))) \<longrightarrow>
            distinct (map includeRow (map key (cards (newProject e pp)))))"
proof -
  from generate_ok_units [OF assms] obtain pc where
    "snd (generate e pp ko w) =
       generateUnits (newProject e pp) pc (w\<lparr>project := Some (newProject e pp)\<rparr>)" ..
  then have "files (snd (generate e pp ko w)) (cardTreeFile (newProject e pp)) =
           Some (concat (map (\<lambda>c. includeRow (key c)) (cards (newProject e pp))))"
    by (simp add: generateUnits_aggregator)
  then show ?thesis
    using distinct_rows [of "map key (cards (newProject e pp))"]
    by (simp add: cardTreeFile_def comp_def)
qed

theorem generate_aggregator_witness:
  "fst (generate (exEnv noSolver) ''/proj'' (Some ''childA'') exWorld) = ok \<and>
   files (snd (generate (exEnv noSolver) ''/proj'' (Some ''childA'') exWorld))
     (join (calculationFolder (exProject ''/proj'')) cardTreeFileName) =
     Some (includeRow ''root'' @ includeRow ''childA'' @ includeRow ''childB'') \<and>
   distinct (map key (cards (exProject ''/proj''))) \<and>
   distinct (map includeRow (map key (cards (exProject ''/proj''))))"
proof -
  have ok: "fst (generate (exEnv noSolver) ''/proj'' (Some ''childA'') exWorld) = ok"
    by (simp add: ex_generate_childA)
  have d: "distinct (map key (cards (exProject ''/proj'')))"
    by (simp add: ex_keys)
  have p: "newProject (exEnv noSolver) ''/proj'' = exProject ''/proj''"
    by (simp add: exEnv_def)
  from generate_aggregator [OF ok] d show ?thesis
    by (simp add: ok p ex_keys)
qed

text \<open>A generation scoped to the leaf \<^verbatim>\<open>childA\<close> writes the rows of all three cards,
  while the scoped subtree is that card alone.\<close>

theorem generate_aggregator_scope_counterexample:
  "map key (getCards (exProject ''/proj'') (Some exChildA)) = [''childA''] \<and>
   files (snd (generate (exEnv noSolver) ''/proj'' (Some ''childA'') exWorld))
     (join (calculationFolder (exProject ''/proj'')) cardTreeFileName) =
     Some (includeRow ''root'' @ includeRow ''childA'' @ includeRow ''childB'') \<and>
   files (snd (generate (exEnv noSolver) ''/proj'' (Some ''childA'') exWorld))
     (join (calculationFolder (exProject ''/proj'')) cardTreeFileName) \<noteq>
     Some (concat (map includeRow (map key (getCards (exProject ''/proj'') (Some exChildA)))))"
proof -
  have sub: "map key (getCards (exProject ''/proj'') (Some exChildA)) = [''childA'']"
    by (simp add: getCards_def exProject_def exFind_def exChildA_def)
  have agg: "files (snd (generate (exEnv noSolver) ''/proj'' (Some ''childA'') exWorld))
     (join (calculationFolder (exProject ''/proj'')) cardTreeFileName) =
     Some (includeRow ''root'' @ includeRow ''childA'' @ includeRow ''childB'')"
    using generateUnits_aggregator [of "exProject ''/proj''" "Some exChildA"]
    by (simp add: ex_generate_childA cardTreeFile_def ex_rows)
  have "includeRow ''root'' @ includeRow ''childA'' @ includeRow ''childB'' \<noteq> includeRow ''childA''"
    by (simp add: includeRow_def)
  with sub agg show ?thesis by simp
qed

text \<open>
  Claim C7. Full generation is idempotent. An unscoped generation is the list of writes
  of the base unit, each per-card unit, the cardtree aggregator, the modules unit and the
  main unit, whose contents depend on the project data only; run again on the state it
  left, with the project data unchanged, it returns the same status and leaves the same
  state, so every unit has byte for byte the content it had.
\<close>

theorem generate_idempotent:
  "generate e pp None (snd (generate e pp None w)) = generate e pp None w \<and>
   generate e pp None w =
     (ok, applyWrites (fullScript (newProject e pp))
            (mkdirCards (calculationFolder (newProject e pp)) (w\<lparr>project := Some (newProject e pp)\<rparr>)))"
proof -
  have "generate e pp None (snd (generate e pp None w)) = generate e pp None w"
    by (simp add: generate_unscoped generateUnits_project generateUnits_full_idem)
  moreover have "generate e pp None w =
     (ok, applyWrites (fullScript (newProject e pp))
            (mkdirCards (calculationFolder (newProject e pp)) (w\<lparr>project := Some (newProject e pp)\<rparr>)))"
    by (simp add: generate_unscoped' generateUnits_full)
  ultimately show ?thesis by simp
qed

text \<open>
  Claim C8. A generation scoped to a card (a non-empty card key) leaves the base, the
  modules and the main unit as they were: the three steps that write them return at once
  when a card is given. An unscoped generation writes all three, with the fixed base
  text, the include rows of the rule modules and the fixed main text.
\<close>

theorem scoped_generation_frame:
  assumes "k \<noteq> []"
  shows "generateBase p (Some c) w = w \<and>
         generateModules p (Some c) w = w \<and>
         generateMainLogicFile p (Some c) w = w \<and>
         files (snd (generate e pp (Some k) w)) (join (calculationFolder (newProject e pp)) baseLogicFileName)
           = files w (join (calculationFolder (newProject e pp)) baseLogicFileName) \<and>
         files (snd (generate e pp (Some k) w)) (join (calculationFolder (newProject e pp)) modulesFileName)
           = files w (join (calculationFolder (newProject e pp)) modulesFileName) \<and>
         files (snd (generate e pp (Some k) w)) (join (calculationFolder (newProject e pp)) mainLogicFileName)
           = files w (join (calculationFolder (newProject e pp)) mainLogicFileName) \<and>
         files (snd (generate e pp None w)) (join (calculationFolder (newProject e pp)) baseLogicFileName)
           = Some commonDefinitions \<and>
         files (snd (generate e pp None w)) (join (calculationFolder (newProject e pp)) modulesFileName)
           = Some (foldl moduleRows [] (calculations (newProject e pp))) \<and>
         files (snd (generate e pp None w)) (join (calculationFolder (newProject e pp)) mainLogicFileName)
           = Some mainLogicFile"
proof -
  have steps: "generateBase p (Some c) w = w \<and> generateModules p (Some c) w = w \<and>
      generateMainLogicFile p (Some c) w = w"
    by (simp add: generateBase_def generateModules_def generateMainLogicFile_def)
  have full: "snd (generate e pp None w) =
      generateUnits (newProject e pp) None (w\<lparr>project := Some (newProject e pp)\<rparr>)"
    by (simp add: generate_unscoped')
  have scoped: "files (snd (generate e pp (Some k) w)) x = files w x"
    if "x = join (calculationFolder (newProject e pp)) baseLogicFileName \<or>
        x = join (calculationFolder (newProject e pp)) modulesFileName \<or>
        x = join (calculationFolder (newProject e pp)) mainLogicFileName" for x
  proof (cases "findSpecificCard (newProject e pp) k noDetails")
    case None
    with assms show ?thesis by (simp add: generate_scoped_missing)
  next
    case (Some c)
    with assms that show ?thesis
      by (simp add: generate_scoped_found generateUnits_scoped_fixed)
  qed
  show ?thesis
    by (simp add: steps scoped full generateUnits_full_fixed)
qed

theorem scoped_generation_frame_witness:
  "''childA'' \<noteq> [] \<and>
   files exCorpus ''/proj/.calc/base.lp'' = None \<and>
   files (snd (generate (exEnv noSolver) ''/proj'' (Some ''childA'') exCorpus)) ''/proj/.calc/base.lp'' = None \<and>
   files (snd (generate (exEnv noSolver) ''/proj'' (Some ''childA'') exCorpus)) ''/proj/.calc/modules.lp'' = None \<and>
   files (snd (generate (exEnv noSolver) ''/proj'' (Some ''childA'') exCorpus)) ''/proj/.calc/main.lp'' = None \<and>
   files (snd (generate (exEnv noSolver) ''/proj'' None exCorpus)) ''/proj/.calc/base.lp'' = Some commonDefinitions \<and>
   files (snd (generate (exEnv noSolver) ''/proj'' None exCorpus)) ''/proj/.calc/main.lp'' = Some mainLogicFile"
proof -
  have k: "''childA'' \<noteq> []" by simp
  have paths: "join (calculationFolder (newProject (exEnv noSolver) ''/proj'')) baseLogicFileName = ''/proj/.calc/base.lp''"
    "join (calculationFolder (newProject (exEnv noSolver) ''/proj'')) modulesFileName = ''/proj/.calc/modules.lp''"
    "join (calculationFolder (newProject (exEnv noSolver) ''/proj'')) mainLogicFileName = ''/proj/.calc/main.lp''"
    by (simp_all add: exEnv_def exProject_def join_def sep_def baseLogicFileName_def
        modulesFileName_def mainLogicFileName_def)
  have before: "files exCorpus ''/proj/.calc/base.lp'' = None"
    "files exCorpus ''/proj/.calc/modules.lp'' = None"
    "files exCorpus ''/proj/.calc/main.lp'' = None"
    by (simp_all add: exCorpus_def)
  from scoped_generation_frame [OF k, where e = "exEnv noSolver" and pp = "''/proj''" and w = exCorpus]
  show ?thesis
    by (simp add: paths before)
qed

section \<open>Created cards\<close>

text \<open>
  Claim C5, as the code has it. Let the project context resolve (the project is bound
  already, or the first card lies under a project root). When no calculation corpus
  exists, \<^verbatim>\<open>handleNewCards\<close> returns without creating or changing any file or folder.
  When a corpus exists, it returns after it has, for each created card, written the
  per-card unit of every card of that card's subtree as the project resolves it (the card
  itself first; none when the project does not find the key), each with the facts of a
  card of that key from these subtrees, and, when the list is not empty, rewritten the
  aggregator to one row per card of the project's card list; every other file is
  unchanged.
\<close>

theorem handleNewCards_effect:
  assumes "setCalculateProject e (case cs of [] \<Rightarrow> None | c # rest \<Rightarrow> Some c) w = Inr w1"
      and "project w1 = Some p"
  shows "files w1 = files w \<and> dirs w1 = dirs w \<and>
         (\<not> calculationsForTreeExist p w \<longrightarrow> handleNewCards e (Some cs) w = Inr w1) \<and>
         (calculationsForTreeExist p w \<longrightarrow>
            (\<exists>w'. handleNewCards e (Some cs) w = Inr w' \<and>
               (\<forall>c \<in> set cs. \<forall>c' \<in> set (getCards p (Some c)).
                  \<exists>d \<in> subtreeCards p cs. key d = key c' \<and>
                     files w' (cardUnitFile p (key c')) = Some (cardLogicProgram d)) \<and>
               (cs \<noteq> [] \<longrightarrow> files w' (cardTreeFile p) = Some (rows (map key (cards p)))) \<and>
               (\<forall>x. x \<noteq> cardTreeFile p \<and> x \<notin> unitPaths p (concat (map (\<lambda>c. getCards p (Some c)) cs)) \<longrightarrow>
                  files w' x = files w x) \<and>
               dirs w' = dirs w))"
proof -
  note same = setCalculateProject_Inr [OF assms(1)]
  have res: "handleNewCards e (Some cs) w =
           Inr (if calculationsForTreeExist p w then newCardsLoop p cs w1 else w1)"
    using assms by (rule handleNewCards_resolved)
  have other: "files (newCardsLoop p cs w1) x = files w x"
    if "x \<noteq> cardTreeFile p" "x \<notin> unitPaths p (concat (map (\<lambda>c. getCards p (Some c)) cs))" for x
  proof -
    from that(2) have "\<forall>c \<in> set cs. x \<notin> unitPaths p (getCards p (Some c))"
      by (auto simp: unitPaths_def)
    with that(1) show ?thesis by (simp add: newCardsLoop_other same)
  qed
  have agg: "files (newCardsLoop p cs w1) (cardTreeFile p) = Some (rows (map key (cards p)))"
    if "cs \<noteq> []"
    using that by (simp add: newCardsLoop_aggregator rows_def)
  show ?thesis
    using res same(1,2) other agg newCardsLoop_unit_in [of _ cs _ p w1]
    by (auto simp: newCardsLoop_fields)
qed

theorem handleNewCards_effect_witness:
  "setCalculateProject (exEnv noSolver) (Some exChildA) exWorld = Inr exBound \<and>
   \<not> calculationsForTreeExist (exProject ''/proj'') exWorld \<and>
   handleNewCards (exEnv noSolver) (Some [exChildA]) exWorld = Inr exBound \<and>
   files exBound = files exWorld \<and>
   calculationsForTreeExist (exProject ''/proj'') exEmptyCorpus \<and>
   (case handleNewCards (exEnv noSolver) (Some [exChildA]) exEmptyCorpus of
      Inl f \<Rightarrow> False
    | Inr w' \<Rightarrow>
        files w' ''/proj/.calc/cards/childA.lp'' = Some (cardLogicProgram exChildA) \<and>
        files w' ''/proj/.calc/cardtree.lp'' = Some (rows [''root'', ''childA'', ''childB'']) \<and>
        files w' ''/proj/.calc/base.lp'' = None)"
proof -
  have r1: "setCalculateProject (exEnv noSolver) (case [exChildA] of [] \<Rightarrow> None | c # rest \<Rightarrow> Some c) exWorld
      = Inr exBound"
    by (simp add: ex_resolve [where rest = "''root/c/childA''"] exChildA_def exWorld_def exBound_def)
  have p1: "project exBound = Some (exProject ''/proj'')"
    by (simp add: exBound_def)
  have r2: "setCalculateProject (exEnv noSolver) (case [exChildA] of [] \<Rightarrow> None | c # rest \<Rightarrow> Some c) exEmptyCorpus
      = Inr (exEmptyCorpus\<lparr>project := Some (exProject ''/proj'')\<rparr>)"
    by (simp add: ex_resolve [where rest = "''root/c/childA''"] exChildA_def exEmptyCorpus_def)
  have p2: "project (exEmptyCorpus\<lparr>project := Some (exProject ''/proj'')\<rparr>) = Some (exProject ''/proj'')"
    by simp
  from handleNewCards_effect [OF r1 p1] ex_exist(4)
  have noop: "handleNewCards (exEnv noSolver) (Some [exChildA]) exWorld = Inr exBound \<and>
      files exBound = files exWorld"
    by blast
  from handleNewCards_effect [OF r2 p2] ex_exist(1)
  obtain w' where w':
    "handleNewCards (exEnv noSolver) (Some [exChildA]) exEmptyCorpus = Inr w'"
    "\<forall>c \<in> set [exChildA]. \<forall>c' \<in> set (getCards (exProject ''/proj'') (Some c)).
        \<exists>d \<in> subtreeCards (exProject ''/proj'') [exChildA]. key d = key c' \<and>
           files w' (cardUnitFile (exProject ''/proj'') (key c')) = Some (cardLogicProgram d)"
    "files w' (cardTreeFile (exProject ''/proj'')) = Some (rows (map key (cards (exProject ''/proj''))))"
    "\<forall>x. x \<noteq> cardTreeFile (exProject ''/proj'') \<and>
         x \<notin> unitPaths (exProject ''/proj'') (concat (map (\<lambda>c. getCards (exProject ''/proj'') (Some c)) [exChildA])) \<longrightarrow>
         files w' x = files exEmptyCorpus x"
    by auto
  have unit: "files w' ''/proj/.calc/cards/childA.lp'' = Some (cardLogicProgram exChildA)"
    using w'(2) by (simp add: ex_subtree subtreeCards_def ex_key ex_paths)
  have agg: "files w' ''/proj/.calc/cardtree.lp'' = Some (rows [''root'', ''childA'', ''childB''])"
    using w'(3) by (simp add: ex_paths ex_keys)
  have "files w' ''/proj/.calc/base.lp'' = files exEmptyCorpus ''/proj/.calc/base.lp''"
    using w'(4) by (simp add: ex_paths ex_subtree unitPaths_def ex_key)
  then have base: "files w' ''/proj/.calc/base.lp'' = None"
    by (simp add: exEmptyCorpus_def)
  from r1 noop ex_exist(1,4) w'(1) unit agg base show ?thesis by simp
qed

text \<open>One created card with two children in the project: three per-card units are new, and
  the aggregator gains three rows.\<close>

theorem handleNewCards_subtree_counterexample:
  "length [exRoot] = 1 \<and>
   calculationsForTreeExist (exProject ''/proj'') exEmptyCorpus \<and>
   files exEmptyCorpus ''/proj/.calc/cards/root.lp'' = None \<and>
   files exEmptyCorpus ''/proj/.calc/cards/childA.lp'' = None \<and>
   files exEmptyCorpus ''/proj/.calc/cards/childB.lp'' = None \<and>
   handleNewCards (exEnv noSolver) (Some [exRoot]) exEmptyCorpus =
     Inr (generateCardTree (exProject ''/proj'') (Some exRoot)
            (exEmptyCorpus\<lparr>project := Some (exProject ''/proj'')\<rparr>)) \<and>
   files (generateCardTree (exProject ''/proj'') (Some exRoot)
            (exEmptyCorpus\<lparr>project := Some (exProject ''/proj'')\<rparr>)) ''/proj/.calc/cards/root.lp'' \<noteq> None \<and>
   files (generateCardTree (exProject ''/proj'') (Some exRoot)
            (exEmptyCorpus\<lparr>project := Some (exProject ''/proj'')\<rparr>)) ''/proj/.calc/cards/childA.lp'' =
     Some (cardLogicProgram exChildA) \<and>
   files (generateCardTree (exProject ''/proj'') (Some exRoot)
            (exEmptyCorpus\<lparr>project := Some (exProject ''/proj'')\<rparr>)) ''/proj/.calc/cards/childB.lp'' =
     Some (cardLogicProgram exChildB) \<and>
   files (generateCardTree (exProject ''/proj'') (Some exRoot)
            (exEmptyCorpus\<lparr>project := Some (exProject ''/proj'')\<rparr>)) ''/proj/.calc/cardtree.lp'' =
     Some (includeRow ''root'' @ includeRow ''childA'' @ includeRow ''childB'')"
proof -
  let ?w = "exEmptyCorpus\<lparr>project := Some (exProject ''/proj'')\<rparr>"
  have r: "setCalculateProject (exEnv noSolver) (case [exRoot] of [] \<Rightarrow> None | c # rest \<Rightarrow> Some c) exEmptyCorpus
      = Inr ?w"
    by (simp add: ex_resolve [where rest = "''root''"] exRoot_def exEmptyCorpus_def)
  have res: "handleNewCards (exEnv noSolver) (Some [exRoot]) exEmptyCorpus =
      Inr (generateCardTree (exProject ''/proj'') (Some exRoot) ?w)"
    using handleNewCards_resolved [OF r, of "exProject ''/proj''"] ex_exist(1)
    by (simp add: newCardsLoop_simps)
  have before: "files exEmptyCorpus ''/proj/.calc/cards/root.lp'' = None"
    "files exEmptyCorpus ''/proj/.calc/cards/childA.lp'' = None"
    "files exEmptyCorpus ''/proj/.calc/cards/childB.lp'' = None"
    by (simp_all add: exEmptyCorpus_def)
  have after: "files (generateCardTree (exProject ''/proj'') (Some exRoot) ?w) ''/proj/.calc/cards/root.lp'' \<noteq> None"
    "files (generateCardTree (exProject ''/proj'') (Some exRoot) ?w) ''/proj/.calc/cards/childA.lp'' =
       Some (cardLogicProgram exChildA)"
    "files (generateCardTree (exProject ''/proj'') (Some exRoot) ?w) ''/proj/.calc/cards/childB.lp'' =
       Some (cardLogicProgram exChildB)"
    by (simp_all add: generateCardTree_alt ex_subtree writeUnits_simps writeFile_files ex_paths ex_key)
  have agg: "files (generateCardTree (exProject ''/proj'') (Some exRoot) ?w) ''/proj/.calc/cardtree.lp'' =
     Some (includeRow ''root'' @ includeRow ''childA'' @ includeRow ''childB'')"
    using generateCardTree_aggregator [of "exProject ''/proj''" "Some exRoot" ?w]
    by (simp add: ex_paths ex_rows)
  from res before after agg ex_exist(1) show ?thesis by simp
qed

section \<open>Deleted cards\<close>

text \<open>
  Claim C6, as the code has it. Let the project context resolve. The affected cards are
  the card that the project finds for the deleted card's key followed by its subtree.
  \<^verbatim>\<open>handleDeleteCard\<close> returns without error; afterwards no affected card has a
  per-card unit, and a missing unit is no error. When the aggregator and the calculation
  folder exist, the aggregator is rewritten with, for each affected card in turn, the
  first occurrence of that card's include row removed; on an aggregator made of the rows
  of keys without \<^verbatim>\<open>#\<close> and newline this removes exactly one row of each affected
  key, and when those keys are distinct the rows of the keys that are not affected
  remain. Every other file is unchanged. When the aggregator or the folder does not exist,
  the aggregator is not written, and the call changes nothing at all provided that no
  affected card has a per-card unit: a unit that is present is deleted all the same.
\<close>

theorem handleDeleteCard_effect:
  assumes "setCalculateProject e (Some d) w = Inr w1"
      and "project w1 = Some p"
  shows "files w1 = files w \<and> dirs w1 = dirs w \<and>
         (calculationsForTreeExist p w \<and> files w (cardTreeFile p) = Some content \<longrightarrow>
            (\<exists>w'. handleDeleteCard e (Some d) w = Inr w' \<and>
               (\<forall>c \<in> set (getCards p (Some d)). files w' (cardUnitFile p (key c)) = None) \<and>
               files w' (cardTreeFile p) = Some (removeRows content (getCards p (Some d))) \<and>
               (\<forall>x. x \<noteq> cardTreeFile p \<and> x \<notin> unitPaths p (getCards p (Some d)) \<longrightarrow>
                  files w' x = files w x))) \<and>
         (\<not> calculationsForTreeExist p w \<longrightarrow>
            (\<exists>w'. handleDeleteCard e (Some d) w = Inr w' \<and>
               (\<forall>c \<in> set (getCards p (Some d)). files w' (cardUnitFile p (key c)) = None) \<and>
               (\<forall>x. x \<notin> unitPaths p (getCards p (Some d)) \<longrightarrow> files w' x = files w x) \<and>
               ((\<forall>c \<in> set (getCards p (Some d)). files w (cardUnitFile p (key c)) = None) \<longrightarrow>
                  w' = w1))) \<and>
         ((\<forall>k \<in> set ks. cleanKey k) \<and> (\<forall>c \<in> set cs. cleanKey (key c)) \<longrightarrow>
            removeRows (rows ks) cs = rows (foldl (\<lambda>ks' c. remove1 (key c) ks') ks cs)) \<and>
         ((\<forall>k \<in> set ks. cleanKey k) \<and> (\<forall>c \<in> set cs. cleanKey (key c)) \<and> distinct ks \<longrightarrow>
            removeRows (rows ks) cs = rows (filter (\<lambda>k. k \<notin> key ` set cs) ks))"
proof -
  note same = setCalculateProject_Inr [OF assms(1)]
  note res = handleDeleteCard_resolved [OF assms]
  let ?cs = "getCards p (Some d)"
  have units: "cardUnitFile p (key c) \<in> unitPaths p ?cs" if "c \<in> set ?cs" for c
    using that by (simp add: unitPaths_def)
  have ne: "cardUnitFile p k \<noteq> cardTreeFile p" for k
    using unit_ne_fixed(2) [of p k] by (simp add: cardTreeFile_def)
  have present:
    "\<exists>w'. handleDeleteCard e (Some d) w = Inr w' \<and>
       (\<forall>c \<in> set ?cs. files w' (cardUnitFile p (key c)) = None) \<and>
       files w' (cardTreeFile p) = Some (removeRows content ?cs) \<and>
       (\<forall>x. x \<noteq> cardTreeFile p \<and> x \<notin> unitPaths p ?cs \<longrightarrow> files w' x = files w x)"
    if "calculationsForTreeExist p w" "files w (cardTreeFile p) = Some content"
    using that res units ne same(1)
    by (simp add: writeFile_files deleteLoop_files)
  have absent:
    "\<exists>w'. handleDeleteCard e (Some d) w = Inr w' \<and>
       (\<forall>c \<in> set ?cs. files w' (cardUnitFile p (key c)) = None) \<and>
       (\<forall>x. x \<notin> unitPaths p ?cs \<longrightarrow> files w' x = files w x) \<and>
       ((\<forall>c \<in> set ?cs. files w (cardUnitFile p (key c)) = None) \<longrightarrow> w' = w1)"
    if "\<not> calculationsForTreeExist p w"
  proof -
    have "fst (foldl (deleteStep p) (w1, []) ?cs) = w1"
      if "\<forall>c \<in> set ?cs. files w (cardUnitFile p (key c)) = None"
      using that deleteLoop_noop [of ?cs "(w1, [])" p] by (simp add: same(1))
    with \<open>\<not> calculationsForTreeExist p w\<close> res units same(1) show ?thesis
      by (simp add: deleteLoop_files)
  qed
  have removed: "removeRows (rows ks) cs = rows (foldl (\<lambda>ks' c. remove1 (key c) ks') ks cs)"
    if "\<forall>k \<in> set ks. cleanKey k" "\<forall>c \<in> set cs. cleanKey (key c)"
    using that by (simp add: removeRows_rows)
  have filtered: "removeRows (rows ks) cs = rows (filter (\<lambda>k. k \<notin> key ` set cs) ks)"
    if "\<forall>k \<in> set ks. cleanKey k" "\<forall>c \<in> set cs. cleanKey (key c)" "distinct ks"
    using that by (simp add: removeRows_rows foldl_remove1_filter)
  from present absent same(1,2) removed filtered show ?thesis by blast
qed

theorem handleDeleteCard_effect_witness:
  "setCalculateProject (exEnv noSolver) (Some exChildA) exCorpus =
     Inr (exCorpus\<lparr>project := Some (exProject ''/proj'')\<rparr>) \<and>
   calculationsForTreeExist (exProject ''/proj'') exCorpus \<and>
   files exCorpus ''/proj/.calc/cardtree.lp'' = Some (rows [''root'', ''childA'', ''childB'']) \<and>
   files exCorpus ''/proj/.calc/cards/childA.lp'' = Some (cardLogicProgram exChildA) \<and>
   (case handleDeleteCard (exEnv noSolver) (Some exChildA) exCorpus of
      Inl f \<Rightarrow> False
    | Inr w' \<Rightarrow>
        files w' ''/proj/.calc/cards/childA.lp'' = None \<and>
        files w' ''/proj/.calc/cardtree.lp'' = Some (rows [''root'', ''childB''])) \<and>
   \<not> calculationsForTreeExist (exProject ''/proj'') exWorld \<and>
   handleDeleteCard (exEnv noSolver) (Some exChildA) exWorld = Inr exBound"
proof -
  let ?P = "exProject ''/proj''"
  have r1: "setCalculateProject (exEnv noSolver) (Some exChildA) exCorpus =
      Inr (exCorpus\<lparr>project := Some ?P\<rparr>)"
    by (simp add: ex_resolve [where rest = "''root/c/childA''"] exChildA_def exCorpus_def)
  have p1: "project (exCorpus\<lparr>project := Some ?P\<rparr>) = Some ?P" by simp
  have r2: "setCalculateProject (exEnv noSolver) (Some exChildA) exWorld = Inr exBound"
    by (simp add: ex_resolve [where rest = "''root/c/childA''"] exChildA_def exWorld_def exBound_def)
  have p2: "project exBound = Some ?P" by (simp add: exBound_def)
  have content: "files exCorpus (cardTreeFile ?P) = Some (rows [''root'', ''childA'', ''childB''])"
    by (simp add: ex_paths exCorpus_def rows_def)
  have unit: "files exCorpus ''/proj/.calc/cards/childA.lp'' = Some (cardLogicProgram exChildA)"
    by (simp add: exCorpus_def)
  note t1 = handleDeleteCard_effect [OF r1 p1, of "rows [''root'', ''childA'', ''childB'']"
      "[''root'', ''childA'', ''childB'']" "[exChildA]"]
  from t1 ex_clean
  have rm: "removeRows (rows [''root'', ''childA'', ''childB'']) [exChildA] = rows [''root'', ''childB'']"
    by (simp add: ex_key)
  from t1 ex_exist(2) content
  obtain w' where w':
    "handleDeleteCard (exEnv noSolver) (Some exChildA) exCorpus = Inr w'"
    "\<forall>c \<in> set (getCards ?P (Some exChildA)). files w' (cardUnitFile ?P (key c)) = None"
    "files w' (cardTreeFile ?P) =
       Some (removeRows (rows [''root'', ''childA'', ''childB'']) (getCards ?P (Some exChildA)))"
    by blast
  have gone: "files w' ''/proj/.calc/cards/childA.lp'' = None"
    using w'(2) by (simp add: ex_subtree ex_key ex_paths)
  have agg: "files w' ''/proj/.calc/cardtree.lp'' = Some (rows [''root'', ''childB''])"
    using w'(3) by (simp add: ex_subtree rm ex_paths)
  from handleDeleteCard_effect [OF r2 p2, of "[]" "[]" "[]"] ex_exist(4)
  obtain w'' where w'':
    "handleDeleteCard (exEnv noSolver) (Some exChildA) exWorld = Inr w''"
    "(\<forall>c \<in> set (getCards ?P (Some exChildA)). files exWorld (cardUnitFile ?P (key c)) = None) \<longrightarrow>
       w'' = exBound"
    by blast
  have "\<forall>c \<in> set (getCards ?P (Some exChildA)). files exWorld (cardUnitFile ?P (key c)) = None"
    by (simp add: exWorld_def)
  with w'' have noop: "handleDeleteCard (exEnv noSolver) (Some exChildA) exWorld = Inr exBound"
    by simp
  from r1 ex_exist(2,4) content unit w'(1) gone agg noop show ?thesis
    by (simp add: ex_paths)
qed

text \<open>Without an aggregator the call still deletes the per-card unit that is present.\<close>

theorem handleDeleteCard_noop_counterexample:
  "\<not> calculationsForTreeExist (exProject ''/proj'') exOrphan \<and>
   files exOrphan ''/proj/.calc/cards/childA.lp'' = Some ''% stale'' \<and>
   handleDeleteCard (exEnv noSolver) (Some exChildA) exOrphan =
     Inr (deleteFile ''/proj/.calc/cards/childA.lp'' (exOrphan\<lparr>project := Some (exProject ''/proj'')\<rparr>)) \<and>
   files (deleteFile ''/proj/.calc/cards/childA.lp'' (exOrphan\<lparr>project := Some (exProject ''/proj'')\<rparr>))
     ''/proj/.calc/cards/childA.lp'' = None"
proof -
  let ?P = "exProject ''/proj''"
  have r: "setCalculateProject (exEnv noSolver) (Some exChildA) exOrphan =
      Inr (exOrphan\<lparr>project := Some ?P\<rparr>)"
    by (simp add: ex_resolve [where rest = "''root/c/childA''"] exChildA_def exOrphan_def)
  have ex: "pathExists (exOrphan\<lparr>project := Some ?P\<rparr>) ''/proj/.calc/cards/childA.lp''"
    by (simp add: pathExists_def exOrphan_def)
  have "handleDeleteCard (exEnv noSolver) (Some exChildA) exOrphan =
     Inr (deleteFile ''/proj/.calc/cards/childA.lp'' (exOrphan\<lparr>project := Some ?P\<rparr>))"
    using handleDeleteCard_resolved [OF r, of ?P] ex_exist(3) ex
    by (simp add: ex_subtree deleteStep_cardUnitFile ex_key ex_paths)
  moreover have "files exOrphan ''/proj/.calc/cards/childA.lp'' = Some ''% stale''"
    by (simp add: exOrphan_def)
  ultimately show ?thesis
    using ex_exist(3) by (simp add: deleteFile_def)
qed

section \<open>The bound project\<close>

text \<open>
  Claim C9. The bound project is one static member with asymmetric binding.
  \<^verbatim>\<open>generate\<close> and \<^verbatim>\<open>run\<close> bind it to the project of their path argument
  whatever was bound before. Once a project is bound, \<^verbatim>\<open>setCalculateProject\<close> leaves
  the state as it is, so the three handlers do not consult the project root of the card's
  path (their results do not depend on \<^verbatim>\<open>findProjectRoot\<close>) and never throw the
  project-resolution fault, also for a card under no project root.
  \<^verbatim>\<open>handleNewCards\<close> and \<^verbatim>\<open>handleDeleteCard\<close> keep the bound project and work
  in its calculation folder: the first runs the scoped regeneration of each card against
  the bound project when its aggregator exists, the second deletes the per-card units of
  the affected cards there and rewrites its aggregator with their rows removed, and
  neither changes a file outside that folder; \<^verbatim>\<open>handleCardChanged\<close> generates for the
  bound project's base path, which binds the project constructed from that path, and
  changes no file outside that project's calculation folder: the bound project's own
  folder, when the constructor gives the project of a base path that folder.
\<close>

theorem project_binding:
  assumes "project w = Some p"
  shows "project (snd (generate e pp ko w0)) = Some (newProject e pp) \<and>
         project (snd (run e pp k w0)) = Some (newProject e pp) \<and>
         setCalculateProject e c w = Inr w \<and>
         handleCardChanged e cc w = Inr (ok, snd (generate e (basePath p) (Some (key cc)) w)) \<and>
         handleNewCards e (Some cs) w =
           Inr (if calculationsForTreeExist p w then newCardsLoop p cs w else w) \<and>
         (\<forall>c'. handleDeleteCard e (Some d) w \<noteq> Inl (notInProject c')) \<and>
         handleCardChanged (e\<lparr>findProjectRoot := g\<rparr>) cc w = handleCardChanged e cc w \<and>
         handleNewCards (e\<lparr>findProjectRoot := g\<rparr>) (Some cs) w = handleNewCards e (Some cs) w \<and>
         handleDeleteCard (e\<lparr>findProjectRoot := g\<rparr>) (Some d) w = handleDeleteCard e (Some d) w \<and>
         (\<forall>w' x. handleNewCards e (Some cs) w = Inr w' \<and> \<not> prefix (calculationFolder p @ [sep]) x \<longrightarrow>
            project w' = Some p \<and> files w' x = files w x) \<and>
         (\<forall>w' x. handleDeleteCard e (Some d) w = Inr w' \<and> \<not> prefix (calculationFolder p @ [sep]) x \<longrightarrow>
            project w' = Some p \<and> files w' x = files w x) \<and>
         (\<forall>r w' x. handleCardChanged e cc w = Inr (r, w') \<and>
              \<not> prefix (calculationFolder (newProject e (basePath p)) @ [sep]) x \<longrightarrow>
            project w' = Some (newProject e (basePath p)) \<and> files w' x = files w x) \<and>
         (calculationFolder (newProject e (basePath p)) = calculationFolder p \<longrightarrow>
            (\<forall>r w' x. handleCardChanged e cc w = Inr (r, w') \<and>
                 \<not> prefix (calculationFolder p @ [sep]) x \<longrightarrow>
               files w' x = files w x)) \<and>
         handleDeleteCard e (Some d) w =
           (if calculationsForTreeExist p w then
              (case files w (cardTreeFile p) of
                 None \<Rightarrow> Inl (ReadError (cardTreeFile p))
               | Some content \<Rightarrow>
                   Inr (writeFile (cardTreeFile p) (removeRows content (getCards p (Some d)))
                          (fst (foldl (deleteStep p) (w, content) (getCards p (Some d))))))
            else Inr (fst (foldl (deleteStep p) (w, []) (getCards p (Some d))))) \<and>
         (\<forall>w'. handleDeleteCard e (Some d) w = Inr w' \<longrightarrow>
            (\<forall>c \<in> set (getCards p (Some d)). files w' (cardUnitFile p (key c)) = None) \<and>
            (calculationsForTreeExist p w \<longrightarrow>
               (\<exists>content. files w (cardTreeFile p) = Some content \<and>
                  files w' (cardTreeFile p) = Some (removeRows content (getCards p (Some d)))))) \<and>
         (\<forall>w'. handleNewCards e (Some cs) w = Inr w' \<and> calculationsForTreeExist p w \<longrightarrow>
            (\<forall>c \<in> set cs. \<forall>c' \<in> set (getCards p (Some c)).
               \<exists>d' \<in> subtreeCards p cs. key d' = key c' \<and>
                  files w' (cardUnitFile p (key c')) = Some (cardLogicProgram d')) \<and>
            (cs \<noteq> [] \<longrightarrow> files w' (cardTreeFile p) = Some (rows (map key (cards p)))))"
proof -
  have bound: "setCalculateProject e' c' w = Inr w" for e' c'
    using assms by (rule setCalculateProject_bound)
  have changed: "handleCardChanged e' cc w =
      Inr (ok, snd (generate e' (basePath p) (Some (key cc)) w))" for e'
    using assms by (simp add: handleCardChanged_def bound)
  have new: "handleNewCards e' (Some cs) w =
      Inr (if calculationsForTreeExist p w then newCardsLoop p cs w else w)" for e'
    using handleNewCards_resolved [OF bound assms] .
  have del: "handleDeleteCard e' (Some d) w =
           (if calculationsForTreeExist p w then
              (case files w (cardTreeFile p) of
                 None \<Rightarrow> Inl (ReadError (cardTreeFile p))
               | Some content \<Rightarrow>
                   Inr (writeFile (cardTreeFile p) (removeRows content (getCards p (Some d)))
                          (fst (foldl (deleteStep p) (w, content) (getCards p (Some d))))))
            else Inr (fst (foldl (deleteStep p) (w, []) (getCards p (Some d)))))" for e'
    using handleDeleteCard_resolved [OF bound assms] .
  have delNo: "handleDeleteCard e (Some d) w \<noteq> Inl (notInProject c')" for c'
    by (simp add: del notInProject_ne split: option.splits)
  have newFrame: "project w' = Some p \<and> files w' x = files w x"
    if "handleNewCards e (Some cs) w = Inr w'" "\<not> prefix (calculationFolder p @ [sep]) x" for w' x
    using that assms by (auto simp: new newCardsLoop_fields newCardsLoop_outside split: if_splits)
  have delFrame: "project w' = Some p \<and> files w' x = files w x"
    if "handleDeleteCard e (Some d) w = Inr w'" "\<not> prefix (calculationFolder p @ [sep]) x" for w' x
    using that assms outside_not_unit(2) [OF that(2)]
    by (auto simp: del writeFile_files writeFile_fields deleteLoop_fields deleteLoop_outside
        split: if_splits option.splits)
  have chFrame: "project w' = Some (newProject e (basePath p)) \<and> files w' x = files w x"
    if "handleCardChanged e cc w = Inr (r, w')"
       "\<not> prefix (calculationFolder (newProject e (basePath p)) @ [sep]) x" for r w' x
    using that by (auto simp: changed generate_project generate_outside)
  have envChanged: "handleCardChanged (e\<lparr>findProjectRoot := g\<rparr>) cc w = handleCardChanged e cc w"
    by (simp add: changed generate_env)
  have envNew: "handleNewCards (e\<lparr>findProjectRoot := g\<rparr>) (Some cs) w = handleNewCards e (Some cs) w"
    by (simp only: new)
  have envDel: "handleDeleteCard (e\<lparr>findProjectRoot := g\<rparr>) (Some d) w = handleDeleteCard e (Some d) w"
    by (simp only: del)
  note g = generate_project [of e pp ko w0]
  note r = run_project [of e pp k w0]
  note b = bound [of e c]
  note ch = changed [of e]
  note n = new [of e]
  have delEffect:
    "(\<forall>c \<in> set (getCards p (Some d)). files w' (cardUnitFile p (key c)) = None) \<and>
     (calculationsForTreeExist p w \<longrightarrow>
        (\<exists>content. files w (cardTreeFile p) = Some content \<and>
           files w' (cardTreeFile p) = Some (removeRows content (getCards p (Some d)))))"
    if "handleDeleteCard e (Some d) w = Inr w'" for w'
  proof -
    have ne: "cardUnitFile p k' \<noteq> cardTreeFile p" for k'
      using unit_ne_fixed(2) [of p k'] by (simp add: cardTreeFile_def)
    have units: "cardUnitFile p (key c') \<in> unitPaths p (getCards p (Some d))"
      if "c' \<in> set (getCards p (Some d))" for c'
      using that by (simp add: unitPaths_def)
    show ?thesis
    proof (cases "calculationsForTreeExist p w")
      case True
      with that obtain content where c: "files w (cardTreeFile p) = Some content"
        "w' = writeFile (cardTreeFile p) (removeRows content (getCards p (Some d)))
                (fst (foldl (deleteStep p) (w, content) (getCards p (Some d))))"
        by (auto simp: del [of e] split: option.splits)
      with True units ne show ?thesis
        by (simp add: writeFile_files deleteLoop_files)
    next
      case False
      with that have "w' = fst (foldl (deleteStep p) (w, []) (getCards p (Some d)))"
        by (simp add: del [of e])
      with False units show ?thesis
        by (simp add: deleteLoop_files)
    qed
  qed
  have newEffect:
    "(\<forall>c \<in> set cs. \<forall>c' \<in> set (getCards p (Some c)).
        \<exists>d' \<in> subtreeCards p cs. key d' = key c' \<and>
           files w' (cardUnitFile p (key c')) = Some (cardLogicProgram d')) \<and>
     (cs \<noteq> [] \<longrightarrow> files w' (cardTreeFile p) = Some (rows (map key (cards p))))"
    if "handleNewCards e (Some cs) w = Inr w'" "calculationsForTreeExist p w" for w'
  proof -
    from that have w': "w' = newCardsLoop p cs w" by (simp add: new [of e])
    show ?thesis
      using newCardsLoop_unit_in [of _ cs _ p w] newCardsLoop_aggregator [of cs p w]
      by (auto simp: w' rows_def)
  qed
  note dl = del [of e]
  have chSame: "files w' x = files w x"
    if "calculationFolder (newProject e (basePath p)) = calculationFolder p"
       "handleCardChanged e cc w = Inr (r, w')"
       "\<not> prefix (calculationFolder p @ [sep]) x" for r w' x
    using that chFrame [of r w' x] by simp
  show ?thesis
    using g r b ch n delNo envChanged envNew envDel newFrame delFrame chFrame chSame
      dl delEffect newEffect
    by blast
qed

theorem project_binding_witness:
  "project exBoundCorpus = Some (exProject ''/proj'') \<and>
   findProjectRoot (exEnv noSolver) (path exStray) = None \<and>
   setCalculateProject (exEnv noSolver) (Some exStray) exCorpus = Inl (notInProject exStray) \<and>
   setCalculateProject (exEnv noSolver) (Some exStray) exBoundCorpus = Inr exBoundCorpus \<and>
   files exBoundCorpus ''/proj/.calc/cards/childA.lp'' = Some (cardLogicProgram exChildA) \<and>
   files exBoundCorpus ''/proj/.calc/cardtree.lp'' = Some (rows [''root'', ''childA'', ''childB'']) \<and>
   (case handleDeleteCard (exEnv noSolver) (Some exStray) exBoundCorpus of
      Inl f \<Rightarrow> False
    | Inr w' \<Rightarrow>
        project w' = Some (exProject ''/proj'') \<and>
        files w' ''/proj/.calc/cards/childA.lp'' = None \<and>
        files w' ''/proj/.calc/cardtree.lp'' = Some (rows [''root'', ''childB''])) \<and>
   files exEmptyCorpus ''/proj/.calc/cards/childA.lp'' = None \<and>
   (case handleNewCards (exEnv noSolver) (Some [exStray])
           (exEmptyCorpus\<lparr>project := Some (exProject ''/proj'')\<rparr>) of
      Inl f \<Rightarrow> False
    | Inr w' \<Rightarrow>
        project w' = Some (exProject ''/proj'') \<and>
        files w' ''/proj/.calc/cards/childA.lp'' = Some (cardLogicProgram exChildA) \<and>
        files w' ''/proj/.calc/cardtree.lp'' = Some (rows [''root'', ''childA'', ''childB''])) \<and>
   handleCardChanged (exEnv noSolver) exStray (exEmptyCorpus\<lparr>project := Some (exProject ''/proj'')\<rparr>) =
     Inr (ok, snd (generate (exEnv noSolver) ''/proj'' (Some ''childA'')
                     (exEmptyCorpus\<lparr>project := Some (exProject ''/proj'')\<rparr>))) \<and>
   files (snd (generate (exEnv noSolver) ''/proj'' (Some ''childA'')
                 (exEmptyCorpus\<lparr>project := Some (exProject ''/proj'')\<rparr>)))
     ''/proj/.calc/cards/childA.lp'' = Some (cardLogicProgram exChildA) \<and>
   project (snd (generate (exEnv noSolver) ''/other'' None exBoundCorpus)) = Some (exProject ''/other'')"
proof -
  let ?P = "exProject ''/proj''"
  let ?E = "exEnv noSolver"
  let ?W = "exEmptyCorpus\<lparr>project := Some ?P\<rparr>"
  have b: "project exBoundCorpus = Some ?P" by (simp add: exBoundCorpus_def)
  have b2: "project ?W = Some ?P" by simp
  have none: "findProjectRoot ?E (path exStray) = None"
    by (simp add: exEnv_def exStray_def)
  have thrown: "setCalculateProject ?E (Some exStray) exCorpus = Inl (notInProject exStray)"
    by (simp add: setCalculateProject_def none exCorpus_def)
  have np: "newProject ?E pp = exProject pp" for pp
    by (simp add: exEnv_def)
  have bp: "basePath ?P = ''/proj''" "key exStray = ''childA''"
    by (simp_all add: exProject_def exStray_def)
  have sub: "getCards ?P (Some exStray) = [exChildA]"
    by (simp add: getCards_def exProject_def exFind_def exStray_def exChildA_def)
  have ex1: "calculationsForTreeExist ?P exBoundCorpus"
    using ex_exist(2) calculationsForTreeExist_cong [of exBoundCorpus exCorpus ?P]
    by (simp add: exBoundCorpus_def)
  have ex2: "calculationsForTreeExist ?P ?W"
    using ex_exist(1) calculationsForTreeExist_cong [of ?W exEmptyCorpus ?P] by simp
  have before: "files exBoundCorpus ''/proj/.calc/cards/childA.lp'' = Some (cardLogicProgram exChildA)"
    "files exBoundCorpus ''/proj/.calc/cardtree.lp'' = Some (rows [''root'', ''childA'', ''childB''])"
    "files exEmptyCorpus ''/proj/.calc/cards/childA.lp'' = None"
    by (simp_all add: exBoundCorpus_def exCorpus_def exEmptyCorpus_def rows_def)
  have rm: "removeRows (rows [''root'', ''childA'', ''childB'']) [exChildA] = rows [''root'', ''childB'']"
    using removeRows_rows [of "[exChildA]" "[''root'', ''childA'', ''childB'']"] ex_clean
    by (simp add: ex_key)
  note t = project_binding [OF b, of ?E "''/other''" None exBoundCorpus "''root''"
      "Some exStray" exStray "[exStray]" exStray]
  note u = project_binding [OF b2, of ?E "''/other''" None exBoundCorpus "''root''"
      "Some exStray" exStray "[exStray]" exStray]
  from t have t1: "setCalculateProject ?E (Some exStray) exBoundCorpus = Inr exBoundCorpus"
    by blast
  from t have t5: "project (snd (generate ?E ''/other'' None exBoundCorpus)) = Some (newProject ?E ''/other'')"
    by blast
  from t have dEq: "handleDeleteCard ?E (Some exStray) exBoundCorpus =
      (if calculationsForTreeExist ?P exBoundCorpus then
         (case files exBoundCorpus (cardTreeFile ?P) of
            None \<Rightarrow> Inl (ReadError (cardTreeFile ?P))
          | Some content \<Rightarrow>
              Inr (writeFile (cardTreeFile ?P) (removeRows content (getCards ?P (Some exStray)))
                     (fst (foldl (deleteStep ?P) (exBoundCorpus, content) (getCards ?P (Some exStray))))))
       else Inr (fst (foldl (deleteStep ?P) (exBoundCorpus, []) (getCards ?P (Some exStray)))))"
    by blast
  from t have dEff: "\<forall>w'. handleDeleteCard ?E (Some exStray) exBoundCorpus = Inr w' \<longrightarrow>
      (\<forall>c \<in> set (getCards ?P (Some exStray)). files w' (cardUnitFile ?P (key c)) = None) \<and>
      (calculationsForTreeExist ?P exBoundCorpus \<longrightarrow>
         (\<exists>content. files exBoundCorpus (cardTreeFile ?P) = Some content \<and>
            files w' (cardTreeFile ?P) = Some (removeRows content (getCards ?P (Some exStray)))))"
    by blast
  let ?D = "writeFile (cardTreeFile ?P) (removeRows (rows [''root'', ''childA'', ''childB'']) [exChildA])
              (fst (foldl (deleteStep ?P) (exBoundCorpus, rows [''root'', ''childA'', ''childB'']) [exChildA]))"
  have dRes: "handleDeleteCard ?E (Some exStray) exBoundCorpus = Inr ?D"
    using dEq ex1 before(2) by (simp add: ex_paths sub)
  have dProj: "project ?D = Some ?P"
    using deleteLoop_fields(1) [of ?P "(exBoundCorpus, rows [''root'', ''childA'', ''childB''])" "[exChildA]"]
    by (simp only: writeFile_fields fst_conv b)
  from dEff dRes ex1 before(2)
  have dFiles: "files ?D ''/proj/.calc/cards/childA.lp'' = None \<and>
      files ?D ''/proj/.calc/cardtree.lp'' = Some (rows [''root'', ''childB''])"
    by (simp add: sub ex_key ex_paths rm)
  from u have nEq: "handleNewCards ?E (Some [exStray]) ?W =
      Inr (if calculationsForTreeExist ?P ?W then newCardsLoop ?P [exStray] ?W else ?W)"
    by blast
  from u have nEff: "\<forall>w'. handleNewCards ?E (Some [exStray]) ?W = Inr w' \<and> calculationsForTreeExist ?P ?W \<longrightarrow>
      (\<forall>c \<in> set [exStray]. \<forall>c' \<in> set (getCards ?P (Some c)).
         \<exists>d' \<in> subtreeCards ?P [exStray]. key d' = key c' \<and>
            files w' (cardUnitFile ?P (key c')) = Some (cardLogicProgram d')) \<and>
      ([exStray] \<noteq> [] \<longrightarrow> files w' (cardTreeFile ?P) = Some (rows (map key (cards ?P))))"
    by blast
  have nRes: "handleNewCards ?E (Some [exStray]) ?W = Inr (newCardsLoop ?P [exStray] ?W)"
    using nEq ex2 by simp
  have nProj: "project (newCardsLoop ?P [exStray] ?W) = Some ?P"
    by (simp add: newCardsLoop_fields)
  from nEff nRes ex2
  have nFiles: "files (newCardsLoop ?P [exStray] ?W) ''/proj/.calc/cards/childA.lp'' = Some (cardLogicProgram exChildA) \<and>
      files (newCardsLoop ?P [exStray] ?W) ''/proj/.calc/cardtree.lp'' = Some (rows [''root'', ''childA'', ''childB''])"
    by (simp add: sub subtreeCards_def ex_key ex_paths ex_keys)
  from u have cEq: "handleCardChanged ?E exStray ?W =
      Inr (ok, snd (generate ?E (basePath ?P) (Some (key exStray)) ?W))"
    by blast
  have gen: "files (snd (generate ?E ''/proj'' (Some ''childA'') ?W)) ''/proj/.calc/cards/childA.lp'' =
      Some (cardLogicProgram exChildA)"
    using generateCardTree_unit_in [of exChildA ?P "Some exChildA"
        "mkdirCards (calculationFolder ?P) (?W\<lparr>project := Some ?P\<rparr>)"]
    by (simp add: ex_generate_childA generateUnits_scoped ex_subtree ex_key ex_paths)
  from b none thrown t1 before dRes dProj dFiles nRes nProj nFiles cEq gen t5 show ?thesis
    by (simp add: np bp)
qed

section \<open>The solver's exit status\<close>

lemma exitDiagnostics_success:
  "code AND E_SAT \<noteq> 0 \<Longrightarrow> code AND E_EXHAUST \<noteq> 0 \<Longrightarrow> exitDiagnostics code = []"
  by (simp add: exitDiagnostics_def)

lemma exitDiagnostics_error:
  "\<not> (code AND E_SAT \<noteq> 0 \<and> code AND E_EXHAUST \<noteq> 0) \<Longrightarrow>
   (''Error'' \<in> set (exitDiagnostics code)) = (code AND E_ERROR \<noteq> 0)"
  by (auto simp: exitDiagnostics_def)

lemma run_found:
  assumes "findSpecificCard (newProject e pp) k noDetails = Some c"
  shows "run e pp k w =
     (let clingo = solverCall e (newProject e pp) c; w1 = w\<lparr>project := Some (newProject e pp)\<rparr>
      in if truthy (stdout clingo) then
           (\<lparr>statusCode = 200, message = None,
             payload = parseClingoResult (the (stdout clingo))\<rparr>, w1)
         else if truthy (stderr clingo) \<and> status clingo \<noteq> None \<and> status clingo \<noteq> Some 0 then
           (\<lparr>statusCode = 400, message = Some ''Clingo error'', payload = None\<rparr>,
            w1\<lparr>console := console w1 @ exitDiagnostics (the (status clingo))\<rparr>)
         else (\<lparr>statusCode = 500, message = Some installClingo, payload = None\<rparr>, w1))"
  using assms by (simp add: run_def Let_def)

lemma ex_newProject: "newProject (exEnv r) pp = exProject pp"
  by (simp add: exEnv_def)

lemma ex_solverCall: "solverCall (exEnv r) p c = r"
  by (simp add: solverCall_def exEnv_def)

lemma ex_run_root: "findSpecificCard (newProject (exEnv r) ''/proj'') ''root'' noDetails = Some exRoot"
  by (simp add: exEnv_def exFind_root)

text \<open>
  Claim C1, as the code has it. When the solver gives empty standard output, non-empty
  standard error and a non-zero exit status, \<^verbatim>\<open>run\<close> returns the validation-class
  failure (400, \<^verbatim>\<open>Clingo error\<close>) whatever the bits of the status are; the status
  decides the diagnostics only. A status that meets both the satisfiable mask and the
  exhausted mask logs nothing, whatever its other bits, the error bit included; any other
  status logs the line \<^verbatim>\<open>Error\<close> exactly when it meets the error mask. When standard
  output is empty and standard error is empty too (or the status is zero or absent),
  \<^verbatim>\<open>run\<close> returns the environment-class failure (500) with the guidance to install the
  solver.
\<close>

theorem run_exit_status:
  assumes "findSpecificCard (newProject e pp) k noDetails = Some c"
      and "solverCall e (newProject e pp) c = r"
      and "\<not> truthy (stdout r)"
  shows "(truthy (stderr r) \<and> status r = Some code \<and> code \<noteq> 0 \<longrightarrow>
            fst (run e pp k w) = \<lparr>statusCode = 400, message = Some ''Clingo error'', payload = None\<rparr> \<and>
            console (snd (run e pp k w)) = console w @ exitDiagnostics code) \<and>
         (code AND E_SAT \<noteq> 0 \<and> code AND E_EXHAUST \<noteq> 0 \<longrightarrow> exitDiagnostics code = []) \<and>
         (\<not> (code AND E_SAT \<noteq> 0 \<and> code AND E_EXHAUST \<noteq> 0) \<longrightarrow>
            (''Error'' \<in> set (exitDiagnostics code)) = (code AND E_ERROR \<noteq> 0)) \<and>
         (\<not> truthy (stderr r) \<or> status r = None \<or> status r = Some 0 \<longrightarrow>
            fst (run e pp k w) = \<lparr>statusCode = 500, message = Some installClingo, payload = None\<rparr> \<and>
            console (snd (run e pp k w)) = console w)"
proof -
  have a: "fst (run e pp k w) = \<lparr>statusCode = 400, message = Some ''Clingo error'', payload = None\<rparr> \<and>
            console (snd (run e pp k w)) = console w @ exitDiagnostics code"
    if "truthy (stderr r)" "status r = Some code" "code \<noteq> 0"
    using that assms by (simp add: run_found Let_def)
  have b: "fst (run e pp k w) = \<lparr>statusCode = 500, message = Some installClingo, payload = None\<rparr> \<and>
            console (snd (run e pp k w)) = console w"
    if "\<not> truthy (stderr r) \<or> status r = None \<or> status r = Some 0"
    using that assms by (auto simp: run_found Let_def)
  show ?thesis
    using a b exitDiagnostics_success [of code] exitDiagnostics_error [of code] by blast
qed

theorem run_exit_status_witness:
  "findSpecificCard (newProject (exEnv (exitedWith 65)) ''/proj'') ''root'' noDetails = Some exRoot \<and>
   \<not> truthy (stdout (exitedWith 65)) \<and> truthy (stderr (exitedWith 65)) \<and>
   fst (run (exEnv (exitedWith 65)) ''/proj'' ''root'' exWorld) =
     \<lparr>statusCode = 400, message = Some ''Clingo error'', payload = None\<rparr> \<and>
   console (snd (run (exEnv (exitedWith 65)) ''/proj'' ''root'' exWorld)) =
     [''Error'', ''Interrupted'', ''Out of memory''] \<and>
   \<not> truthy (stderr noSolver) \<and>
   fst (run (exEnv noSolver) ''/proj'' ''root'' exWorld) =
     \<lparr>statusCode = 500, message = Some installClingo, payload = None\<rparr>"
proof -
  have out: "\<not> truthy (stdout (exitedWith 65))" "truthy (stderr (exitedWith 65))"
    "status (exitedWith 65) = Some 65" "\<not> truthy (stdout noSolver)" "\<not> truthy (stderr noSolver)"
    by (simp_all add: truthy_def exitedWith_def noSolver_def)
  have d: "exitDiagnostics 65 = [''Error'', ''Interrupted'', ''Out of memory'']"
    by (simp add: exitDiagnostics_def E_SAT_def E_EXHAUST_def E_ERROR_def E_INTERRUPT_def
        E_MEMORY_def E_NO_RUN_def E_UNKNOWN_def)
  from run_exit_status [OF ex_run_root ex_solverCall out(1), of 65 exWorld] out(2,3)
  have failed: "fst (run (exEnv (exitedWith 65)) ''/proj'' ''root'' exWorld) =
      \<lparr>statusCode = 400, message = Some ''Clingo error'', payload = None\<rparr> \<and>
    console (snd (run (exEnv (exitedWith 65)) ''/proj'' ''root'' exWorld)) =
      console exWorld @ exitDiagnostics 65"
    by simp
  from run_exit_status [OF ex_run_root ex_solverCall out(4), of 0 exWorld] out(5)
  have missing: "fst (run (exEnv noSolver) ''/proj'' ''root'' exWorld) =
      \<lparr>statusCode = 500, message = Some installClingo, payload = None\<rparr>"
    by simp
  from failed missing out show ?thesis
    by (simp add: ex_run_root d exWorld_def)
qed

text \<open>The status 30 meets the satisfiable and the exhausted mask and not the error mask;
  the result is the failure all the same.\<close>

theorem run_sat_exhaust_counterexample:
  "(30::int) AND E_SAT \<noteq> 0 \<and> (30::int) AND E_EXHAUST \<noteq> 0 \<and> (30::int) AND E_ERROR = 0 \<and>
   run (exEnv (exitedWith 30)) ''/proj'' ''root'' exWorld =
     (\<lparr>statusCode = 400, message = Some ''Clingo error'', payload = None\<rparr>,
      exWorld\<lparr>project := Some (exProject ''/proj'')\<rparr>)"
proof -
  have bits: "(30::int) AND E_SAT \<noteq> 0 \<and> (30::int) AND E_EXHAUST \<noteq> 0 \<and> (30::int) AND E_ERROR = 0"
    by (simp add: E_SAT_def E_EXHAUST_def E_ERROR_def)
  then have "exitDiagnostics 30 = []" by (simp add: exitDiagnostics_def)
  then have "run (exEnv (exitedWith 30)) ''/proj'' ''root'' exWorld =
     (\<lparr>statusCode = 400, message = Some ''Clingo error'', payload = None\<rparr>,
      exWorld\<lparr>project := Some (exProject ''/proj'')\<rparr>)"
    by (simp add: run_found [OF ex_run_root] ex_solverCall ex_newProject truthy_def
        exitedWith_def Let_def)
  with bits show ?thesis by simp
qed

section \<open>The parent fact\<close>









end
